theory Spec2Isabelle
  imports Main
begin

section \<open>JavaScript numbers\<close>

text \<open>
  The price conversion of \<^verbatim>\<open>server.ts\<close> is
  \<^verbatim>\<open>Math.floor(parseFloat(cfg.price) * 1_000_000).toString()\<close>, so the numbers of the
  model are the IEEE 754 binary64 values of ECMAScript. A finite value is \<open>Fin m e\<close>,
  standing for \<open>m * 2 ^ e\<close>, kept in the normal form that \<open>dyadic\<close> computes
  (\<open>m\<close> odd, or \<open>Fin 0 0\<close> for zero). Negative zero is identified with zero: no
  operation used here tells them apart (both print as \<^verbatim>\<open>"0"\<close>).
\<close>

datatype jsnum = NaN | PosInf | NegInf | Fin int int

function dyadic :: "int \<Rightarrow> int \<Rightarrow> jsnum" where
  "dyadic m e = (if m = 0 then Fin 0 0 else if even m then dyadic (m div 2) (e + 1) else Fin m e)"
  by pat_completeness auto
termination
  by (relation "measure (\<lambda>(m, e). nat \<bar>m\<bar>)") auto

declare dyadic.simps [simp del]

fun bit_length :: "nat \<Rightarrow> nat" where
  "bit_length n = (if n = 0 then 0 else Suc (bit_length (n div 2)))"

declare bit_length.simps [simp del]

text \<open>
  \<open>round_to_double n d\<close> is the Number value of the rational \<open>n / d\<close> (for \<open>0 < d\<close>):
  round to nearest, ties to even, with 53 significant bits, gradual underflow below
  \<open>2 ^ - 1022\<close> and overflow to an infinity from \<open>2 ^ 1024\<close> on. \<open>rd_exponent\<close> finds
  the binary exponent \<open>e\<close> with \<open>2 ^ e \<le> a / d < 2 ^ (e + 1)\<close> from the bit lengths,
  \<open>rd_quantum\<close> rounds the quotient by the unit in the last place \<open>2 ^ p\<close>, and
  \<open>rd_pack\<close> handles overflow and the sign.
\<close>

definition nearest_even :: "int \<Rightarrow> int \<Rightarrow> int" where
  "nearest_even N D =
     (if 2 * (N mod D) < D then N div D
      else if D < 2 * (N mod D) then N div D + 1
      else if even (N div D) then N div D else N div D + 1)"

definition rd_pack :: "bool \<Rightarrow> int \<Rightarrow> int \<Rightarrow> jsnum" where
  "rd_pack neg m p =
     (if 0 \<le> p \<and> 2 ^ 1024 \<le> m * 2 ^ nat p then (if neg then NegInf else PosInf)
      else dyadic (if neg then - m else m) p)"

definition rd_quantum :: "bool \<Rightarrow> int \<Rightarrow> int \<Rightarrow> int \<Rightarrow> jsnum" where
  "rd_quantum neg a d p = rd_pack neg (nearest_even (a * 2 ^ nat (- p)) (d * 2 ^ nat p)) p"

definition rd_exponent :: "bool \<Rightarrow> int \<Rightarrow> int \<Rightarrow> int \<Rightarrow> jsnum" where
  "rd_exponent neg a d e0 =
     rd_quantum neg a d
       (max (if d * 2 ^ nat e0 \<le> a * 2 ^ nat (- e0) then e0 else e0 - 1) (- 1022) - 52)"

definition round_to_double :: "int \<Rightarrow> int \<Rightarrow> jsnum" where
  "round_to_double n d =
     (if n = 0 then Fin 0 0
      else rd_exponent (n < 0) \<bar>n\<bar> d
             (int (bit_length (nat \<bar>n\<bar>)) - int (bit_length (nat d))))"

text \<open>A numeric literal of the source with an integer value, such as \<^verbatim>\<open>1_000_000\<close>.\<close>

definition js_number :: "int \<Rightarrow> jsnum" where
  "js_number n = round_to_double n 1"

fun js_negate :: "jsnum \<Rightarrow> jsnum" where
  "js_negate NaN = NaN"
| "js_negate PosInf = NegInf"
| "js_negate NegInf = PosInf"
| "js_negate (Fin m e) = Fin (- m) e"

text \<open>The operator \<^verbatim>\<open>*\<close> on Numbers: the exact product, rounded once.\<close>

fun js_times :: "jsnum \<Rightarrow> jsnum \<Rightarrow> jsnum" where
  "js_times NaN y = NaN"
| "js_times x NaN = NaN"
| "js_times (Fin m e) (Fin m' e') =
     round_to_double (m * m' * 2 ^ nat (e + e')) (2 ^ nat (- (e + e')))"
| "js_times (Fin m e) PosInf = (if m = 0 then NaN else if 0 < m then PosInf else NegInf)"
| "js_times (Fin m e) NegInf = (if m = 0 then NaN else if 0 < m then NegInf else PosInf)"
| "js_times PosInf (Fin m e) = (if m = 0 then NaN else if 0 < m then PosInf else NegInf)"
| "js_times NegInf (Fin m e) = (if m = 0 then NaN else if 0 < m then NegInf else PosInf)"
| "js_times PosInf PosInf = PosInf"
| "js_times PosInf NegInf = NegInf"
| "js_times NegInf PosInf = NegInf"
| "js_times NegInf NegInf = PosInf"

fun Math_floor :: "jsnum \<Rightarrow> jsnum" where
  "Math_floor (Fin m e) = (if 0 \<le> e then Fin m e else dyadic (m div 2 ^ nat (- e)) 0)"
| "Math_floor x = x"

subsection \<open>parseFloat\<close>

text \<open>
  Strings are lists of code units; the model covers the code units below 256.
  \<^verbatim>\<open>parseFloat\<close> skips leading white space and reads the longest prefix that is a
  \<^verbatim>\<open>StrDecimalLiteral\<close>: an optional sign, then \<^verbatim>\<open>Infinity\<close> or decimal digits with
  an optional fraction and an optional exponent. Without such a prefix the result is
  \<^verbatim>\<open>NaN\<close>; it never throws. The value of the literal is rounded to the nearest double.
\<close>

definition is_js_whitespace :: "char \<Rightarrow> bool" where
  "is_js_whitespace c \<longleftrightarrow>
     c = CHR 0x09 \<or> c = CHR 0x0A \<or> c = CHR 0x0B \<or> c = CHR 0x0C \<or> c = CHR 0x0D \<or>
     c = CHR 0x20 \<or> c = CHR 0xA0"

definition digit_value :: "char \<Rightarrow> nat option" where
  "digit_value c = map_of (zip ''0123456789'' [0, 1, 2, 3, 4, 5, 6, 7, 8, 9]) c"

definition is_digit :: "char \<Rightarrow> bool" where
  "is_digit c \<longleftrightarrow> digit_value c \<noteq> None"

fun digits_value :: "nat \<Rightarrow> string \<Rightarrow> nat" where
  "digits_value acc [] = acc"
| "digits_value acc (c # cs) =
     digits_value (10 * acc + (case digit_value c of Some v \<Rightarrow> v | None \<Rightarrow> 0)) cs"

definition signed_integer :: "string \<Rightarrow> int option" where
  "signed_integer s =
     (case s of
        [] \<Rightarrow> None
      | c # t \<Rightarrow>
          if c = CHR ''+'' \<or> c = CHR ''-'' then
            (if takeWhile is_digit t = [] then None
             else Some ((if c = CHR ''-'' then - 1 else 1) *
                        int (digits_value 0 (takeWhile is_digit t))))
          else if is_digit c then Some (int (digits_value 0 (takeWhile is_digit s)))
          else None)"

definition exponent_part :: "string \<Rightarrow> int" where
  "exponent_part s =
     (case s of
        [] \<Rightarrow> 0
      | c # t \<Rightarrow>
          if c = CHR ''e'' \<or> c = CHR ''E''
          then (case signed_integer t of Some x \<Rightarrow> x | None \<Rightarrow> 0)
          else 0)"

text \<open>The digits \<open>ip\<close> before and \<open>fp\<close> after the point, scaled by \<open>10 ^ ex\<close>.\<close>

definition decimal_value :: "string \<Rightarrow> string \<Rightarrow> int \<Rightarrow> jsnum" where
  "decimal_value ip fp ex =
     (if 0 \<le> ex - int (length fp)
      then round_to_double (int (digits_value 0 (ip @ fp)) * 10 ^ nat (ex - int (length fp))) 1
      else round_to_double (int (digits_value 0 (ip @ fp))) (10 ^ nat (int (length fp) - ex)))"

definition unsigned_decimal :: "string \<Rightarrow> jsnum" where
  "unsigned_decimal s =
     (if take 8 s = ''Infinity'' then PosInf
      else
        (case dropWhile is_digit s of
           [] \<Rightarrow> if s = [] then NaN else decimal_value s [] 0
         | c # t \<Rightarrow>
             if c = CHR ''.'' then
               (if takeWhile is_digit s = [] \<and> takeWhile is_digit t = [] then NaN
                else decimal_value (takeWhile is_digit s) (takeWhile is_digit t)
                       (exponent_part (dropWhile is_digit t)))
             else if takeWhile is_digit s = [] then NaN
             else decimal_value (takeWhile is_digit s) [] (exponent_part (c # t))))"

definition parseFloat :: "string \<Rightarrow> jsnum" where
  "parseFloat s =
     (case dropWhile is_js_whitespace s of
        [] \<Rightarrow> NaN
      | c # t \<Rightarrow>
          if c = CHR ''-'' then js_negate (unsigned_decimal t)
          else if c = CHR ''+'' then unsigned_decimal t
          else unsigned_decimal (c # t))"

subsection \<open>Number.prototype.toString, radix 10\<close>

function decimal_length :: "nat \<Rightarrow> nat" where
  "decimal_length n = (if n = 0 then 0 else Suc (decimal_length (n div 10)))"
  by pat_completeness auto
termination
  by (relation "measure id") auto

declare decimal_length.simps [simp del]

function decimal_digits :: "nat \<Rightarrow> string" where
  "decimal_digits n =
     (if n < 10 then [''0123456789'' ! n]
      else decimal_digits (n div 10) @ [''0123456789'' ! (n mod 10)])"
  by pat_completeness auto
termination
  by (relation "measure id") auto

declare decimal_digits.simps [simp del]

text \<open>
  \<^verbatim>\<open>Number::toString\<close> picks integers \<open>n\<close>, \<open>k\<close>, \<open>s\<close> with \<open>k\<close> as small as
  possible such that \<open>10 ^ (k - 1) \<le> s < 10 ^ k\<close> and \<open>s * 10 ^ (n - k)\<close> rounds to the
  number; among several \<open>s\<close> the one nearest to the number. \<open>decimal_point N D\<close> is the
  \<open>n\<close> with \<open>10 ^ (n - 1) \<le> N / D < 10 ^ n\<close>; for a digit count \<open>k\<close> the only candidates
  are the two integers around the number scaled by \<open>10 ^ (k - n)\<close> (\<open>X / D\<close> below),
  and seventeen digits always suffice.
\<close>

definition decimal_point :: "int \<Rightarrow> int \<Rightarrow> int" where
  "decimal_point N D =
     (if D \<le> N then int (decimal_length (nat (N div D)))
      else 1 - int (decimal_length (nat ((D + N - 1) div N - 1))))"

definition reads_back :: "int \<Rightarrow> int \<Rightarrow> int \<Rightarrow> int \<Rightarrow> int \<Rightarrow> bool" where
  "reads_back m e s n k \<longleftrightarrow>
     round_to_double (s * 10 ^ nat (n - k)) (10 ^ nat (k - n)) = Fin m e"

definition choose_digits ::
  "bool \<Rightarrow> bool \<Rightarrow> int \<times> int \<Rightarrow> int \<times> int \<Rightarrow> int \<Rightarrow> int \<Rightarrow> (int \<times> int) option" where
  "choose_digits lo_ok hi_ok lo hi X D =
     (if lo_ok \<and> hi_ok then
        (if 2 * (X mod D) < D then Some lo
         else if D < 2 * (X mod D) then Some hi
         else if even (fst lo) then Some lo else Some hi)
      else if lo_ok then Some lo
      else if hi_ok then Some hi
      else None)"

definition shortest_at :: "int \<Rightarrow> int \<Rightarrow> int \<Rightarrow> int \<Rightarrow> int \<Rightarrow> int \<Rightarrow> (int \<times> int) option" where
  "shortest_at m e n k X D =
     choose_digits
       (10 ^ nat (k - 1) \<le> X div D \<and> reads_back m e (X div D) n k)
       (reads_back m e (X div D + 1) n k)
       (X div D, n)
       (if X div D + 1 = 10 ^ nat k then (10 ^ nat (k - 1), n + 1) else (X div D + 1, n))
       X D"

fun shortest_digits :: "int \<Rightarrow> int \<Rightarrow> int \<Rightarrow> nat list \<Rightarrow> (int \<times> int \<times> nat) option" where
  "shortest_digits m e n [] = None"
| "shortest_digits m e n (k # ks) =
     (case shortest_at m e n (int k)
             (m * 2 ^ nat e * 10 ^ nat (int k - n)) (2 ^ nat (- e) * 10 ^ nat (n - int k)) of
        Some (s, n') \<Rightarrow> Some (s, n', k)
      | None \<Rightarrow> shortest_digits m e n ks)"

definition format_digits :: "string \<Rightarrow> int \<Rightarrow> nat \<Rightarrow> string" where
  "format_digits ds n k =
     (if int k \<le> n \<and> n \<le> 21 then ds @ replicate (nat (n - int k)) CHR ''0''
      else if 0 < n \<and> n \<le> 21 then take (nat n) ds @ ''.'' @ drop (nat n) ds
      else if - 6 < n \<and> n \<le> 0 then ''0.'' @ replicate (nat (- n)) CHR ''0'' @ ds
      else (if k = 1 then ds else take 1 ds @ ''.'' @ drop 1 ds) @ ''e'' @
           (if 0 < n - 1 then ''+'' else ''-'') @ decimal_digits (nat \<bar>n - 1\<bar>))"

definition positive_to_string :: "int \<Rightarrow> int \<Rightarrow> string" where
  "positive_to_string m e =
     (case shortest_digits m e (decimal_point (m * 2 ^ nat e) (2 ^ nat (- e)))
             [1, 2, 3, 4, 5, 6, 7, 8, 9, 10, 11, 12, 13, 14, 15, 16, 17] of
        Some (s, n, k) \<Rightarrow> format_digits (decimal_digits (nat s)) n k
      | None \<Rightarrow> ''NaN'')"

fun Number_toString :: "jsnum \<Rightarrow> string" where
  "Number_toString NaN = ''NaN''"
| "Number_toString PosInf = ''Infinity''"
| "Number_toString NegInf = ''-Infinity''"
| "Number_toString (Fin m e) =
     (if m = 0 then ''0''
      else if m < 0 then ''-'' @ positive_to_string (- m) e
      else positive_to_string m e)"

section \<open>The amount of a price\<close>

text \<open>
  \<^verbatim>\<open>const priceInSmallestUnit = Math.floor(parseFloat(cfg.price) * 1_000_000).toString();\<close>
  The same expression builds the amount of the payment challenge and of the requirement
  sent to the facilitator.
\<close>

definition priceInSmallestUnit :: "string \<Rightarrow> string" where
  "priceInSmallestUnit price =
     Number_toString (Math_floor (js_times (parseFloat price) (js_number 1000000)))"

section \<open>JavaScript values\<close>

text \<open>
  The values that reach the code as \<^verbatim>\<open>any\<close>: parsed JSON (the decoded payment proof,
  the facilitator's response body) and request metadata. An object is the list of its
  own properties in insertion order.
\<close>

datatype jsval =
    JUndefined
  | JNull
  | JBool bool
  | JNum jsnum
  | JStr string
  | JArr "jsval list"
  | JObj "(string \<times> jsval) list"

text \<open>
  A thrown value: an instance of \<^verbatim>\<open>Error\<close> with its message, or a value that is no
  \<^verbatim>\<open>Error\<close>, with the string that \<^verbatim>\<open>String(...)\<close> makes of it (the two things the
  \<^verbatim>\<open>catch\<close> blocks of the source read). Values whose conversion to a string would
  itself throw are not among the thrown values considered.
\<close>

datatype js_exn = ErrorObj string | ThrownValue string

fun js_truthy :: "jsval \<Rightarrow> bool" where
  "js_truthy JUndefined = False"
| "js_truthy JNull = False"
| "js_truthy (JBool b) = b"
| "js_truthy (JNum n) = (n \<noteq> NaN \<and> n \<noteq> Fin 0 0)"
| "js_truthy (JStr s) = (s \<noteq> [])"
| "js_truthy (JArr xs) = True"
| "js_truthy (JObj kvs) = True"

definition obj_get :: "(string \<times> jsval) list \<Rightarrow> string \<Rightarrow> jsval" where
  "obj_get kvs k = (case map_of kvs k of Some v \<Rightarrow> v | None \<Rightarrow> JUndefined)"

fun obj_set :: "(string \<times> jsval) list \<Rightarrow> string \<Rightarrow> jsval \<Rightarrow> (string \<times> jsval) list" where
  "obj_set [] k v = [(k, v)]"
| "obj_set (kv # kvs) k v = (if fst kv = k then (k, v) # kvs else kv # obj_set kvs k v)"

definition obj_delete :: "(string \<times> jsval) list \<Rightarrow> string \<Rightarrow> (string \<times> jsval) list" where
  "obj_delete kvs k = filter (\<lambda>kv. fst kv \<noteq> k) kvs"

fun join_with :: "string \<Rightarrow> string list \<Rightarrow> string" where
  "join_with sep [] = []"
| "join_with sep [x] = x"
| "join_with sep (x # y # ys) = x @ sep @ join_with sep (y # ys)"

text \<open>
  The conversion to a string inside a template literal, of a property key and of the
  message given to \<^verbatim>\<open>new Error\<close>. An object parsed from JSON is converted by
  \<^verbatim>\<open>Object.prototype.toString\<close>, unless it has an own property \<^verbatim>\<open>toString\<close>: that
  one is no function, \<^verbatim>\<open>valueOf\<close> yields no primitive either, and the conversion
  throws a \<^verbatim>\<open>TypeError\<close> (with the message of V8). An array converts its elements
  from left to right, \<^verbatim>\<open>undefined\<close> and \<^verbatim>\<open>null\<close> to the empty string, and joins
  them with commas.
\<close>

fun js_ToString :: "jsval \<Rightarrow> js_exn + string"
  and join_elements :: "jsval list \<Rightarrow> js_exn + string" where
  "js_ToString JUndefined = Inr ''undefined''"
| "js_ToString JNull = Inr ''null''"
| "js_ToString (JBool b) = Inr (if b then ''true'' else ''false'')"
| "js_ToString (JNum n) = Inr (Number_toString n)"
| "js_ToString (JStr s) = Inr s"
| "js_ToString (JArr xs) = join_elements xs"
| "js_ToString (JObj kvs) =
     (if map_of kvs ''toString'' = None then Inr ''[object Object]''
      else Inl (ErrorObj ''Cannot convert object to primitive value''))"
| "join_elements [] = Inr []"
| "join_elements (x # xs) =
     (case (if x = JUndefined \<or> x = JNull then Inr [] else js_ToString x) of
        Inl err \<Rightarrow> Inl err
      | Inr s \<Rightarrow>
          if xs = [] then Inr s
          else (case join_elements xs of
                  Inl err \<Rightarrow> Inl err
                | Inr t \<Rightarrow> Inr (s @ '','' @ t)))"

definition canonical_index :: "string \<Rightarrow> nat option" where
  "canonical_index k =
     (if k \<noteq> [] \<and> list_all is_digit k \<and> (k = ''0'' \<or> hd k \<noteq> CHR ''0'')
      then Some (digits_value 0 k) else None)"

text \<open>
  Reading a property, \<^verbatim>\<open>v.k\<close> or \<^verbatim>\<open>v[k]\<close>: a \<^verbatim>\<open>TypeError\<close> on
  \<^verbatim>\<open>undefined\<close> and \<^verbatim>\<open>null\<close> (with the message of V8), own properties otherwise.
  The source reads only \<^verbatim>\<open>network\<close>, \<^verbatim>\<open>code\<close>, \<^verbatim>\<open>data\<close>, \<^verbatim>\<open>msg\<close>,
  \<^verbatim>\<open>length\<close>, \<^verbatim>\<open>0\<close>, \<^verbatim>\<open>isValid\<close>, \<^verbatim>\<open>invalidReason\<close>, \<^verbatim>\<open>success\<close>,
  \<^verbatim>\<open>errorReason\<close> and \<^verbatim>\<open>txHash\<close> from such values, none of which is inherited from
  a prototype except \<^verbatim>\<open>length\<close> of arrays and strings.
\<close>

fun js_get :: "jsval \<Rightarrow> string \<Rightarrow> js_exn + jsval" where
  "js_get JUndefined k =
     Inl (ErrorObj (''Cannot read properties of undefined (reading '' @ [CHR 0x27] @ k @
                    [CHR 0x27] @ '')''))"
| "js_get JNull k =
     Inl (ErrorObj (''Cannot read properties of null (reading '' @ [CHR 0x27] @ k @
                    [CHR 0x27] @ '')''))"
| "js_get (JBool b) k = Inr JUndefined"
| "js_get (JNum n) k = Inr JUndefined"
| "js_get (JStr s) k =
     Inr (if k = ''length'' then JNum (js_number (int (length s)))
          else (case canonical_index k of
                  Some i \<Rightarrow> if i < length s then JStr [s ! i] else JUndefined
                | None \<Rightarrow> JUndefined))"
| "js_get (JArr xs) k =
     Inr (if k = ''length'' then JNum (js_number (int (length xs)))
          else (case canonical_index k of
                  Some i \<Rightarrow> if i < length xs then xs ! i else JUndefined
                | None \<Rightarrow> JUndefined))"
| "js_get (JObj kvs) k = Inr (obj_get kvs k)"

text \<open>The own enumerable properties that an object spread \<^verbatim>\<open>{ ...v }\<close> copies.\<close>

fun spread :: "jsval \<Rightarrow> (string \<times> jsval) list" where
  "spread (JObj kvs) = kvs"
| "spread (JArr xs) = map (\<lambda>(i, x). (decimal_digits i, x)) (enumerate 0 xs)"
| "spread (JStr s) = map (\<lambda>(i, c). (decimal_digits i, JStr [c])) (enumerate 0 s)"
| "spread v = []"

definition upper_char :: "char \<Rightarrow> char" where
  "upper_char c =
     (case map_of (zip ''abcdefghijklmnopqrstuvwxyz'' ''ABCDEFGHIJKLMNOPQRSTUVWXYZ'') c of
        Some u \<Rightarrow> u
      | None \<Rightarrow> c)"

text \<open>\<^verbatim>\<open>String.prototype.toUpperCase\<close> on ASCII text (the only caller passes \<^verbatim>\<open>"POST"\<close>).\<close>

definition toUpperCase :: "string \<Rightarrow> string" where
  "toUpperCase s = map upper_char s"

section \<open>Types of the package (types.ts)\<close>

record OKXCredentials =
  apiKey :: string
  secretKey :: string
  passphrase :: string

datatype facilitator_type = okx | standard

record FacilitatorConfig =
  url :: string
  ftype :: "facilitator_type option"
  okxCredentials :: "OKXCredentials option"

record PaymentConfigOptions =
  description :: "string option"
  metadata :: "(string \<times> jsval) list option"

record PaymentConfig =
  price :: string
  chainId :: jsnum
  token :: string
  usdcName :: string
  usdcVersion :: string
  network :: string
  config :: "PaymentConfigOptions option"

record ServerConfig =
  recipient :: string
  facilitators :: "string \<Rightarrow> FacilitatorConfig option"

datatype content_type = text_type | image_type | resource_type

record ContentBlock =
  block_type :: content_type
  block_text :: "string option"
  block_data :: "string option"
  block_mimeType :: "string option"

record ToolResult =
  content :: "ContentBlock list"
  isError :: "bool option"
  result_meta :: "(string \<times> jsval) list option"

text \<open>
  A registered tool. \<open>paramsSchema\<close> is the schema's \<^verbatim>\<open>parse\<close>, which returns the
  validated arguments or throws; \<open>callback\<close> is the tool's handler, which returns a
  result or throws.
\<close>

record ToolDefinition =
  tool_name :: string
  tool_description :: string
  paramsSchema :: "jsval \<Rightarrow> js_exn + jsval"
  callback :: "jsval \<Rightarrow> (string \<times> jsval) list option \<Rightarrow> js_exn + ToolResult"
  paymentOptions :: "PaymentConfig list option"

text \<open>The \<^verbatim>\<open>params\<close> of a \<^verbatim>\<open>tools/call\<close> request.\<close>

record CallToolRequest =
  params_name :: string
  params_arguments :: jsval
  params_meta :: "(string \<times> jsval) list option"

section \<open>The platform\<close>

record http_request =
  request_url :: string
  request_method :: string
  request_headers :: "(string \<times> string) list"
  request_body :: "string option"

text \<open>A response: \<^verbatim>\<open>response.ok\<close>, and what \<^verbatim>\<open>text()\<close> and \<^verbatim>\<open>json()\<close> resolve to
  or reject with.\<close>

record http_response =
  response_ok :: bool
  response_text :: "js_exn + string"
  response_json :: "js_exn + jsval"

text \<open>
  What the code takes from Node.js and from the network, as parameters:
  \<^item> \<open>JSON_stringify\<close> is \<^verbatim>\<open>JSON.stringify\<close>;
  \<^item> \<open>base64_json_parse p\<close> is \<^verbatim>\<open>JSON.parse(Buffer.from(p, "base64").toString("utf-8"))\<close>,
    the parsed value or what is thrown;
  \<^item> \<open>hmac_sha256_base64 key msg\<close> is
    \<^verbatim>\<open>crypto.createHmac("sha256", key).update(msg).digest("base64")\<close>;
  \<^item> \<open>env_URL\<close> is \<^verbatim>\<open>process.env.URL\<close>;
  \<^item> \<open>now_toISOString k\<close> is \<^verbatim>\<open>new Date().toISOString()\<close> read during facilitator
    call number \<open>k\<close> of the request, and \<open>fetch k\<close> is what \<^verbatim>\<open>fetch\<close> does with the
    request of that call: a response, or a thrown network error.
\<close>

record runtime =
  JSON_stringify :: "jsval \<Rightarrow> string"
  base64_json_parse :: "jsval \<Rightarrow> js_exn + jsval"
  hmac_sha256_base64 :: "string \<Rightarrow> string \<Rightarrow> string"
  env_URL :: "string option"
  now_toISOString :: "nat \<Rightarrow> string"
  fetch :: "nat \<Rightarrow> http_request \<Rightarrow> js_exn + http_response"

section \<open>OKX request signing (utils/okx-signature.ts)\<close>

definition generateOKXHeaders ::
  "runtime \<Rightarrow> nat \<Rightarrow> string \<Rightarrow> string \<Rightarrow> string \<Rightarrow> OKXCredentials \<Rightarrow> (string \<times> string) list" where
  "generateOKXHeaders rt k method requestPath body credentials =
     [(''Content-Type'', ''application/json''),
      (''OK-ACCESS-KEY'', apiKey credentials),
      (''OK-ACCESS-SIGN'',
         hmac_sha256_base64 rt (secretKey credentials)
           (now_toISOString rt k @ toUpperCase method @ requestPath @ body)),
      (''OK-ACCESS-PASSPHRASE'', passphrase credentials),
      (''OK-ACCESS-TIMESTAMP'', now_toISOString rt k)]"

text \<open>The request that \<^verbatim>\<open>makeOKXRequest\<close> hands to \<^verbatim>\<open>fetch\<close>.\<close>

definition makeOKXRequest ::
  "runtime \<Rightarrow> nat \<Rightarrow> string \<Rightarrow> string \<Rightarrow> string \<Rightarrow> jsval \<Rightarrow> OKXCredentials \<Rightarrow> http_request" where
  "makeOKXRequest rt k target method requestPath body credentials =
     \<lparr>request_url = target,
      request_method = toUpperCase method,
      request_headers =
        generateOKXHeaders rt k method requestPath
          (if toUpperCase method = ''GET'' then [] else JSON_stringify rt body) credentials,
      request_body =
        (if toUpperCase method \<noteq> ''GET'' \<and>
            (if toUpperCase method = ''GET'' then [] else JSON_stringify rt body) \<noteq> []
         then Some (JSON_stringify rt body) else None)\<rparr>"

section \<open>The facilitator gateway (utils/facilitator.ts)\<close>

datatype action = verify | settle

fun action_name :: "action \<Rightarrow> string" where
  "action_name verify = ''verify''"
| "action_name settle = ''settle''"

text \<open>Lines 16 to 34: the payload, shaped by the facilitator's type.\<close>

definition facilitator_payload ::
  "FacilitatorConfig \<Rightarrow> PaymentConfig \<Rightarrow> jsval \<Rightarrow> jsval \<Rightarrow> (string \<times> jsval) list" where
  "facilitator_payload facilitator paymentConfig decodedPayment paymentRequirements =
     (if ftype facilitator = Some okx then
        [(''x402Version'', JNum (js_number 1)),
         (''paymentPayload'', JObj (obj_delete (spread decodedPayment) ''network'')),
         (''paymentRequirements'', JObj (obj_delete (spread paymentRequirements) ''network'')),
         (''chainIndex'', JStr (Number_toString (chainId paymentConfig)))]
      else
        [(''x402Version'', JNum (js_number 1)),
         (''paymentPayload'', JObj (spread decodedPayment)),
         (''paymentRequirements'',
            JObj (obj_set (spread paymentRequirements) ''network''
                    (JStr (network paymentConfig))))])"

text \<open>Lines 40 to 63: the request, signed only for type okx with credentials.\<close>

definition facilitator_request ::
  "runtime \<Rightarrow> nat \<Rightarrow> action \<Rightarrow> FacilitatorConfig \<Rightarrow> (string \<times> jsval) list \<Rightarrow> http_request" where
  "facilitator_request rt k a facilitator payload =
     (case okxCredentials facilitator of
        Some credentials \<Rightarrow>
          if ftype facilitator = Some okx then
            makeOKXRequest rt k (url facilitator @ ''/api/v6/x402/'' @ action_name a) ''POST''
              (''/api/v6/x402/'' @ action_name a) (JObj payload) credentials
          else
            \<lparr>request_url = url facilitator @ ''/'' @ action_name a,
             request_method = ''POST'',
             request_headers = [(''Content-Type'', ''application/json'')],
             request_body = Some (JSON_stringify rt (JObj payload))\<rparr>
      | None \<Rightarrow>
          \<lparr>request_url = url facilitator @ ''/'' @ action_name a,
           request_method = ''POST'',
           request_headers = [(''Content-Type'', ''application/json'')],
           request_body = Some (JSON_stringify rt (JObj payload))\<rparr>)"

text \<open>Lines 75 to 80: the OKX envelope \<^verbatim>\<open>{ code: "0", data: [{...}] }\<close>.\<close>

definition okx_unwrap :: "jsval \<Rightarrow> js_exn + jsval" where
  "okx_unwrap result =
     (case js_get result ''code'' of
        Inl err \<Rightarrow> Inl err
      | Inr code \<Rightarrow>
          (case js_get result ''data'' of
             Inl err \<Rightarrow> Inl err
           | Inr dat \<Rightarrow>
               (case js_get result ''msg'' of
                  Inl err \<Rightarrow> Inl err
                | Inr msg \<Rightarrow>
                    if code \<noteq> JStr ''0'' \<or> \<not> js_truthy dat \<or>
                       js_get dat ''length'' = Inr (JNum (Fin 0 0))
                    then (if js_truthy msg
                          then (case js_ToString msg of
                                  Inl err \<Rightarrow> Inl err
                                | Inr message \<Rightarrow> Inl (ErrorObj message))
                          else Inl (ErrorObj ''OKX facilitator error''))
                    else js_get dat ''0'')))"

text \<open>Lines 65 to 84: what the call returns or throws, given what \<^verbatim>\<open>fetch\<close> did.\<close>

definition facilitator_result ::
  "FacilitatorConfig \<Rightarrow> action \<Rightarrow> js_exn + http_response \<Rightarrow> js_exn + jsval" where
  "facilitator_result facilitator a fetched =
     (case fetched of
        Inl err \<Rightarrow> Inl err
      | Inr response \<Rightarrow>
          if \<not> response_ok response then
            (case response_text response of
               Inl err \<Rightarrow> Inl err
             | Inr errorText \<Rightarrow>
                 Inl (ErrorObj (''Facilitator '' @ action_name a @ '' failed: '' @ errorText)))
          else
            (case response_json response of
               Inl err \<Rightarrow> Inl err
             | Inr result \<Rightarrow>
                 if ftype facilitator = Some okx then okx_unwrap result else Inr result))"

text \<open>The request sent and the outcome of \<^verbatim>\<open>callFacilitator\<close>, as call number \<open>k\<close>.\<close>

definition callFacilitator ::
  "runtime \<Rightarrow> nat \<Rightarrow> action \<Rightarrow> FacilitatorConfig \<Rightarrow> PaymentConfig \<Rightarrow> jsval \<Rightarrow> jsval \<Rightarrow>
     http_request \<times> (js_exn + jsval)" where
  "callFacilitator rt k a facilitator paymentConfig decodedPayment paymentRequirements =
     (facilitator_request rt k a facilitator
        (facilitator_payload facilitator paymentConfig decodedPayment paymentRequirements),
      facilitator_result facilitator a
        (fetch rt k
           (facilitator_request rt k a facilitator
              (facilitator_payload facilitator paymentConfig decodedPayment
                 paymentRequirements))))"

section \<open>The tools/call handler (server.ts)\<close>

text \<open>
  What a call does besides returning: the facilitator calls it makes, each with the
  request sent and what \<^verbatim>\<open>callFacilitator\<close> returned or threw, and the invocations of
  the tool's handler, each with the validated arguments and what the handler returned or
  threw. A run of the request handler yields its events in order and its outcome.
\<close>

datatype event =
    FacilitatorCall action http_request "js_exn + jsval"
  | HandlerCall jsval "js_exn + ToolResult"

text \<open>\<^verbatim>\<open>error instanceof Error ? error.message : String(error)\<close>\<close>

fun error_details :: "js_exn \<Rightarrow> string" where
  "error_details (ErrorObj message) = message"
| "error_details (ThrownValue s) = s"

text \<open>\<^verbatim>\<open>{ isError: true, content: [{ type: "text", text: JSON.stringify({...}) }] }\<close>\<close>

definition error_result :: "runtime \<Rightarrow> (string \<times> jsval) list \<Rightarrow> ToolResult" where
  "error_result rt props =
     \<lparr>content =
        [\<lparr>block_type = text_type, block_text = Some (JSON_stringify rt (JObj props)),
          block_data = None, block_mimeType = None\<rparr>],
      isError = Some True,
      result_meta = None\<rparr>"

text \<open>\<^verbatim>\<open>`${process.env.URL || "http://localhost:3000"}/mcp/tools/${toolName}`\<close>\<close>

definition resource_of :: "runtime \<Rightarrow> string \<Rightarrow> string" where
  "resource_of rt toolName =
     (case env_URL rt of
        Some u \<Rightarrow> if u \<noteq> [] then u else ''http://localhost:3000''
      | None \<Rightarrow> ''http://localhost:3000'') @ ''/mcp/tools/'' @ toolName"

text \<open>\<^verbatim>\<open>cfg.config?.description || toolDef.description\<close>\<close>

definition description_of :: "PaymentConfig \<Rightarrow> ToolDefinition \<Rightarrow> string" where
  "description_of cfg toolDef =
     (case config cfg of
        None \<Rightarrow> tool_description toolDef
      | Some opts \<Rightarrow>
          (case description opts of
             None \<Rightarrow> tool_description toolDef
           | Some d \<Rightarrow> if d \<noteq> [] then d else tool_description toolDef))"

text \<open>Lines 271 to 289: one entry of \<^verbatim>\<open>accepts\<close>.\<close>

definition accepts_entry ::
  "runtime \<Rightarrow> ServerConfig \<Rightarrow> ToolDefinition \<Rightarrow> string \<Rightarrow> PaymentConfig \<Rightarrow> jsval" where
  "accepts_entry rt cnf toolDef toolName cfg =
     JObj [(''scheme'', JStr ''exact''),
           (''network'', JStr (network cfg)),
           (''maxAmountRequired'', JStr (priceInSmallestUnit (price cfg))),
           (''payTo'', JStr (recipient cnf)),
           (''asset'', JStr (token cfg)),
           (''maxTimeoutSeconds'', JNum (js_number 300)),
           (''resource'', JStr (resource_of rt toolName)),
           (''mimeType'', JStr ''application/json''),
           (''description'', JStr (description_of cfg toolDef)),
           (''extra'', JObj [(''name'', JStr (usdcName cfg)),
                             (''version'', JStr (usdcVersion cfg))])]"

text \<open>Lines 291 to 301: the answer to a paid call without payment.\<close>

definition payment_required ::
  "runtime \<Rightarrow> ServerConfig \<Rightarrow> ToolDefinition \<Rightarrow> string \<Rightarrow> PaymentConfig list \<Rightarrow> ToolResult" where
  "payment_required rt cnf toolDef toolName paymentConfigs =
     error_result rt
       [(''x402Version'', JNum (js_number 1)),
        (''error'', JStr ''_meta.x402.payment is required''),
        (''accepts'', JArr (map (accepts_entry rt cnf toolDef toolName) paymentConfigs))]"

text \<open>Lines 327 to 341: the requirements sent to the facilitator.\<close>

definition build_paymentRequirements ::
  "runtime \<Rightarrow> ServerConfig \<Rightarrow> ToolDefinition \<Rightarrow> string \<Rightarrow> PaymentConfig \<Rightarrow> jsval" where
  "build_paymentRequirements rt cnf toolDef toolName selectedConfig =
     JObj [(''scheme'', JStr ''exact''),
           (''maxAmountRequired'', JStr (priceInSmallestUnit (price selectedConfig))),
           (''payTo'', JStr (recipient cnf)),
           (''asset'', JStr (token selectedConfig)),
           (''maxTimeoutSeconds'', JNum (js_number 300)),
           (''resource'', JStr (resource_of rt toolName)),
           (''mimeType'', JStr ''application/json''),
           (''description'', JStr (description_of selectedConfig toolDef)),
           (''extra'', JObj [(''name'', JStr (usdcName selectedConfig)),
                             (''version'', JStr (usdcVersion selectedConfig))])]"

text \<open>Lines 414 to 425: the inner \<^verbatim>\<open>catch\<close>.\<close>

definition settlement_error :: "runtime \<Rightarrow> js_exn \<Rightarrow> ToolResult" where
  "settlement_error rt err =
     error_result rt
       [(''error'', JStr ''Payment settlement error''),
        (''details'', JStr (error_details err))]"

text \<open>Lines 390 to 413: what the inner \<^verbatim>\<open>try\<close> does with the outcome of settle.\<close>

definition settle_outcome :: "runtime \<Rightarrow> ToolResult \<Rightarrow> js_exn + jsval \<Rightarrow> ToolResult" where
  "settle_outcome rt result outcome =
     (case outcome of
        Inl err \<Rightarrow> settlement_error rt err
      | Inr settleResult \<Rightarrow>
          (case js_get settleResult ''success'' of
             Inl err \<Rightarrow> settlement_error rt err
           | Inr success \<Rightarrow>
               if \<not> js_truthy success then
                 (case js_get settleResult ''errorReason'' of
                    Inl err \<Rightarrow> settlement_error rt err
                  | Inr errorReason \<Rightarrow>
                      error_result rt
                        [(''error'', JStr ''Payment settlement failed''),
                         (''details'',
                            if js_truthy errorReason then errorReason
                            else JStr ''Settlement unsuccessful'')])
               else
                 (case js_get settleResult ''txHash'' of
                    Inl err \<Rightarrow> settlement_error rt err
                  | Inr txHash \<Rightarrow>
                      result\<lparr>result_meta :=
                        Some (obj_set (case result_meta result of None \<Rightarrow> [] | Some m \<Rightarrow> m)
                                ''x402.payment-response''
                                (JObj [(''settled'', JBool True), (''txHash'', txHash)]))\<rparr>)))"

text \<open>Lines 379 to 428: settle, as the second facilitator call of the request.\<close>

definition settle_payment ::
  "runtime \<Rightarrow> FacilitatorConfig \<Rightarrow> PaymentConfig \<Rightarrow> jsval \<Rightarrow> jsval \<Rightarrow> ToolResult \<Rightarrow>
     event list \<times> ToolResult" where
  "settle_payment rt facilitator selectedConfig decodedPayment paymentRequirements result =
     (case callFacilitator rt 1 settle facilitator selectedConfig decodedPayment
             paymentRequirements of
        (req, outcome) \<Rightarrow>
          ([FacilitatorCall settle req outcome], settle_outcome rt result outcome))"

text \<open>Lines 369 to 428: validate the arguments, run the tool, settle unless it failed.\<close>

definition execute_tool ::
  "runtime \<Rightarrow> ToolDefinition \<Rightarrow> CallToolRequest \<Rightarrow> FacilitatorConfig \<Rightarrow> PaymentConfig \<Rightarrow>
     jsval \<Rightarrow> jsval \<Rightarrow> event list \<times> (js_exn + ToolResult)" where
  "execute_tool rt toolDef request facilitator selectedConfig decodedPayment
       paymentRequirements =
     (case paramsSchema toolDef (params_arguments request) of
        Inl err \<Rightarrow> ([], Inl err)
      | Inr args \<Rightarrow>
          (case callback toolDef args (params_meta request) of
             Inl err \<Rightarrow> ([HandlerCall args (Inl err)], Inl err)
           | Inr result \<Rightarrow>
               if isError result = Some True then ([HandlerCall args (Inr result)], Inr result)
               else
                 (case settle_payment rt facilitator selectedConfig decodedPayment
                         paymentRequirements result of
                    (evs, r) \<Rightarrow> (HandlerCall args (Inr result) # evs, Inr r))))"

text \<open>Lines 343 to 365, then the rest: verify, as the first facilitator call.\<close>

definition verify_payment ::
  "runtime \<Rightarrow> ToolDefinition \<Rightarrow> CallToolRequest \<Rightarrow> FacilitatorConfig \<Rightarrow> PaymentConfig \<Rightarrow>
     jsval \<Rightarrow> jsval \<Rightarrow> event list \<times> (js_exn + ToolResult)" where
  "verify_payment rt toolDef request facilitator selectedConfig decodedPayment
       paymentRequirements =
     (case callFacilitator rt 0 verify facilitator selectedConfig decodedPayment
             paymentRequirements of
        (req, outcome) \<Rightarrow>
          (case outcome of
             Inl err \<Rightarrow> ([FacilitatorCall verify req outcome], Inl err)
           | Inr verifyResult \<Rightarrow>
               (case js_get verifyResult ''isValid'' of
                  Inl err \<Rightarrow> ([FacilitatorCall verify req outcome], Inl err)
                | Inr isValid \<Rightarrow>
                    if \<not> js_truthy isValid then
                      (case js_get verifyResult ''invalidReason'' of
                         Inl err \<Rightarrow> ([FacilitatorCall verify req outcome], Inl err)
                       | Inr invalidReason \<Rightarrow>
                           ([FacilitatorCall verify req outcome],
                            Inr (error_result rt
                                   [(''x402Version'', JNum (js_number 1)),
                                    (''error'', JStr ''Invalid payment''),
                                    (''details'',
                                       if js_truthy invalidReason then invalidReason
                                       else JStr ''Payment verification failed'')])))
                    else
                      (case execute_tool rt toolDef request facilitator selectedConfig
                              decodedPayment paymentRequirements of
                         (evs, r) \<Rightarrow> (FacilitatorCall verify req outcome # evs, r)))))"

text \<open>Lines 308 to 341: the network of the proof selects a configuration and a facilitator.\<close>

definition process_payment ::
  "runtime \<Rightarrow> ServerConfig \<Rightarrow> ToolDefinition \<Rightarrow> CallToolRequest \<Rightarrow> PaymentConfig list \<Rightarrow>
     jsval \<Rightarrow> event list \<times> (js_exn + ToolResult)" where
  "process_payment rt cnf toolDef request paymentConfigs decodedPayment =
     (case js_get decodedPayment ''network'' of
        Inl err \<Rightarrow> ([], Inl err)
      | Inr selectedNetwork \<Rightarrow>
          if \<not> js_truthy selectedNetwork then
            ([], Inl (ErrorObj ''Payment payload must include 'network' field''))
          else
            (case find (\<lambda>cfg. JStr (network cfg) = selectedNetwork) paymentConfigs of
               None \<Rightarrow>
                 (case js_ToString selectedNetwork of
                    Inl err \<Rightarrow> ([], Inl err)
                  | Inr name \<Rightarrow>
                      ([], Inl (ErrorObj (''Network '' @ [CHR 0x27] @ name @ [CHR 0x27] @
                                          '' is not an accepted payment option''))))
             | Some selectedConfig \<Rightarrow>
                 (case js_ToString selectedNetwork of
                    Inl err \<Rightarrow> ([], Inl err)
                  | Inr name \<Rightarrow>
                      (case facilitators cnf name of
                         None \<Rightarrow>
                           ([], Inl (ErrorObj (''No facilitator configured for network '' @
                                               name)))
                       | Some facilitator \<Rightarrow>
                           verify_payment rt toolDef request facilitator selectedConfig
                             decodedPayment
                             (build_paymentRequirements rt cnf toolDef (params_name request)
                                selectedConfig)))))"

text \<open>Lines 265 to 441: a call of a paid tool; the outer \<^verbatim>\<open>catch\<close> turns whatever is
  thrown after the payment check into an error result.\<close>

definition paid_call ::
  "runtime \<Rightarrow> ServerConfig \<Rightarrow> ToolDefinition \<Rightarrow> CallToolRequest \<Rightarrow> PaymentConfig list \<Rightarrow>
     event list \<times> ToolResult" where
  "paid_call rt cnf toolDef request paymentConfigs =
     (let payment = (case params_meta request of
                       None \<Rightarrow> JUndefined
                     | Some m \<Rightarrow> obj_get m ''x402.payment'')
      in if \<not> js_truthy payment then
           ([], payment_required rt cnf toolDef (params_name request) paymentConfigs)
         else
           (case (case base64_json_parse rt payment of
                    Inl err \<Rightarrow> ([], Inl err)
                  | Inr decodedPayment \<Rightarrow>
                      process_payment rt cnf toolDef request paymentConfigs decodedPayment) of
              (evs, Inl err) \<Rightarrow>
                (evs, error_result rt
                        [(''error'', JStr ''Payment processing error''),
                         (''details'', JStr (error_details err))])
            | (evs, Inr r) \<Rightarrow> (evs, r)))"

text \<open>Lines 250 to 442: the handler of \<^verbatim>\<open>tools/call\<close>.\<close>

definition handle_call ::
  "runtime \<Rightarrow> ServerConfig \<Rightarrow> ToolDefinition list \<Rightarrow> CallToolRequest \<Rightarrow>
     event list \<times> (js_exn + ToolResult)" where
  "handle_call rt cnf tools request =
     (case find (\<lambda>t. tool_name t = params_name request) tools of
        None \<Rightarrow> ([], Inl (ErrorObj (''Tool not found: '' @ params_name request)))
      | Some toolDef \<Rightarrow>
          (case paymentOptions toolDef of
             None \<Rightarrow>
               (case paramsSchema toolDef (params_arguments request) of
                  Inl err \<Rightarrow> ([], Inl err)
                | Inr args \<Rightarrow>
                    ([HandlerCall args (callback toolDef args (params_meta request))],
                     callback toolDef args (params_meta request)))
           | Some paymentConfigs \<Rightarrow>
               (case paid_call rt cnf toolDef request paymentConfigs of
                  (evs, r) \<Rightarrow> (evs, Inr r))))"

section \<open>A concrete deployment\<close>

text \<open>
  The deployment of the README's quick start, for evaluating the definitions above: a
  paid tool with one price on xlayer (an OKX facilitator) and one on base-sepolia (a
  standard facilitator). \<open>example_stringify\<close> stands in for \<^verbatim>\<open>JSON.stringify\<close> (it
  does not escape strings). \<open>example_parse\<close> is the decoding of the five values that
  the examples submit as \<^verbatim>\<open>x402.payment\<close> and is used for no other value: the base64
  text of each of the two proofs; \<^verbatim>\<open>e30=\<close>, the base64 text of \<^verbatim>\<open>{}\<close>; the empty
  string and \<^verbatim>\<open>!!!\<close>, which hold no base64 digit, so that \<^verbatim>\<open>Buffer.from\<close> yields no
  byte and \<^verbatim>\<open>JSON.parse\<close> of the empty text throws its \<^verbatim>\<open>SyntaxError\<close>.
\<close>

fun example_stringify :: "jsval \<Rightarrow> string" where
  "example_stringify JUndefined = ''undefined''"
| "example_stringify JNull = ''null''"
| "example_stringify (JBool b) = (if b then ''true'' else ''false'')"
| "example_stringify (JNum n) = Number_toString n"
| "example_stringify (JStr s) = [CHR 0x22] @ s @ [CHR 0x22]"
| "example_stringify (JArr xs) = ''['' @ join_with '','' (map example_stringify xs) @ '']''"
| "example_stringify (JObj kvs) =
     ''{'' @ join_with '',''
              (map (\<lambda>kv. [CHR 0x22] @ fst kv @ [CHR 0x22] @ '':'' @ example_stringify (snd kv))
                 kvs) @ ''}''"

definition example_xlayer_proof :: jsval where
  "example_xlayer_proof =
     JObj [(''network'', JStr ''xlayer''), (''payload'', JStr ''signed-authorization'')]"

definition example_base_proof :: jsval where
  "example_base_proof =
     JObj [(''network'', JStr ''base-sepolia''), (''payload'', JStr ''signed-authorization'')]"

definition example_parse :: "jsval \<Rightarrow> js_exn + jsval" where
  "example_parse p =
     (if p = JStr ''eyJuZXR3b3JrIjoieGxheWVyIiwicGF5bG9hZCI6InNpZ25lZC1hdXRob3JpemF0aW9uIn0=''
      then Inr example_xlayer_proof
      else if p = JStr (''eyJuZXR3b3JrIjoiYmFzZS1zZXBvbGlhIiwicGF5bG9hZCI6InNpZ25lZC1hdXRob3'' @
                        ''JpemF0aW9uIn0='')
      then Inr example_base_proof
      else if p = JStr ''e30=''
      then Inr (JObj [])
      else Inl (ErrorObj ''Unexpected end of JSON input''))"

text \<open>The platform when the facilitator answers the first call with \<open>v\<close> and the second
  with \<open>s\<close>.\<close>

definition example_runtime ::
  "js_exn + http_response \<Rightarrow> js_exn + http_response \<Rightarrow> runtime" where
  "example_runtime v s =
     \<lparr>JSON_stringify = example_stringify,
      base64_json_parse = example_parse,
      hmac_sha256_base64 = (\<lambda>key msg. ''hmac('' @ key @ '','' @ msg @ '')''),
      env_URL = None,
      now_toISOString = (\<lambda>k. if k = 0 then ''2025-01-01T00:00:00.000Z''
                             else ''2025-01-01T00:00:01.000Z''),
      fetch = (\<lambda>k req. if k = 0 then v else s)\<rparr>"

definition json_response :: "jsval \<Rightarrow> js_exn + http_response" where
  "json_response body =
     Inr \<lparr>response_ok = True, response_text = Inr (example_stringify body),
          response_json = Inr body\<rparr>"

definition okx_envelope :: "jsval \<Rightarrow> jsval" where
  "okx_envelope d = JObj [(''code'', JStr ''0''), (''data'', JArr [d]), (''msg'', JStr [])]"

definition example_credentials :: OKXCredentials where
  "example_credentials = \<lparr>apiKey = ''key-1'', secretKey = ''secret-1'', passphrase = ''pass-1''\<rparr>"

definition example_okx :: FacilitatorConfig where
  "example_okx =
     \<lparr>url = ''https://www.okx.com'', ftype = Some okx,
      okxCredentials = Some example_credentials\<rparr>"

definition example_okx_unsigned :: FacilitatorConfig where
  "example_okx_unsigned =
     \<lparr>url = ''https://www.okx.com'', ftype = Some okx, okxCredentials = None\<rparr>"

definition example_standard :: FacilitatorConfig where
  "example_standard =
     \<lparr>url = ''https://x402.org/facilitator'', ftype = Some standard, okxCredentials = None\<rparr>"

definition example_xlayer :: PaymentConfig where
  "example_xlayer =
     \<lparr>price = ''0.01'', chainId = js_number 196,
      token = ''0x74b7f16337b8972027f6196a17a631ac6de26d22'',
      usdcName = ''USD Coin'', usdcVersion = ''2'', network = ''xlayer'',
      config = Some \<lparr>description = Some ''Premium analysis service'', metadata = None\<rparr>\<rparr>"

definition example_base :: PaymentConfig where
  "example_base =
     \<lparr>price = ''0.1'', chainId = js_number 84532,
      token = ''0x036CbD53842c5426634e7929541eC2318f3dCF7e'',
      usdcName = ''USDC'', usdcVersion = ''2'', network = ''base-sepolia'',
      config = None\<rparr>"

definition example_server :: ServerConfig where
  "example_server =
     \<lparr>recipient = ''0xSeller'',
      facilitators = (\<lambda>n. if n = ''xlayer'' then Some example_okx
                          else if n = ''base-sepolia'' then Some example_standard
                          else None)\<rparr>"

definition example_tool_result :: ToolResult where
  "example_tool_result =
     \<lparr>content = [\<lparr>block_type = text_type, block_text = Some ''analysis done'',
                   block_data = None, block_mimeType = None\<rparr>],
      isError = None,
      result_meta = Some [(''trace'', JStr ''t-1'')]\<rparr>"

definition example_tool :: ToolDefinition where
  "example_tool =
     \<lparr>tool_name = ''premium_analysis'',
      tool_description = ''Perform premium data analysis'',
      paramsSchema = Inr,
      callback = (\<lambda>args m. Inr example_tool_result),
      paymentOptions = Some [example_xlayer, example_base]\<rparr>"

definition example_request :: "(string \<times> jsval) list option \<Rightarrow> CallToolRequest" where
  "example_request m =
     \<lparr>params_name = ''premium_analysis'',
      params_arguments = JObj [(''data'', JStr ''abc'')],
      params_meta = m\<rparr>"

text \<open>A run in which verify and settle both succeed on xlayer.\<close>

definition example_paid_runtime :: runtime where
  "example_paid_runtime =
     example_runtime (json_response (okx_envelope (JObj [(''isValid'', JBool True)])))
       (json_response
          (okx_envelope (JObj [(''success'', JBool True), (''txHash'', JStr ''0xabc'')])))"

text \<open>The same with a settlement that the facilitator refuses.\<close>

definition example_unsettled_runtime :: runtime where
  "example_unsettled_runtime =
     example_runtime (json_response (okx_envelope (JObj [(''isValid'', JBool True)])))
       (json_response
          (okx_envelope (JObj [(''success'', JBool False),
                               (''errorReason'', JStr ''insufficient funds'')])))"

text \<open>A call that carries the proof for xlayer, base64-encoded, in its metadata.\<close>

definition example_paid_request :: CallToolRequest where
  "example_paid_request =
     example_request
       (Some [(''x402.payment'',
               JStr (''eyJuZXR3b3JrIjoieGxheWVyIiwicGF5bG9hZCI6InNpZ25lZC1hdXRob3JpemF0aW9u'' @
                     ''In0=''))])"

definition example_requirements :: "PaymentConfig \<Rightarrow> jsval" where
  "example_requirements cfg =
     build_paymentRequirements example_paid_runtime example_server example_tool
       ''premium_analysis'' cfg"

section \<open>Evaluation\<close>

lemma replicate_numeral_unfold: "replicate (numeral k) x = x # replicate (pred_numeral k) x"
  by (simp add: numeral_eq_Suc)

lemmas num_eval = replicate_numeral_unfold
  priceInSmallestUnit_def parseFloat_def unsigned_decimal_def decimal_value_def
  exponent_part_def signed_integer_def is_digit_def digit_value_def is_js_whitespace_def
  round_to_double_def rd_exponent_def rd_quantum_def rd_pack_def nearest_even_def
  bit_length.simps dyadic.simps decimal_length.simps decimal_digits.simps
  decimal_point_def reads_back_def shortest_at_def choose_digits_def format_digits_def
  positive_to_string_def js_number_def

lemmas example_defs =
  example_paid_runtime_def example_runtime_def json_response_def okx_envelope_def
  example_credentials_def example_okx_def example_okx_unsigned_def example_standard_def
  example_xlayer_def example_base_def example_server_def example_tool_result_def
  example_tool_def example_request_def example_parse_def example_xlayer_proof_def
  example_base_proof_def example_requirements_def example_unsettled_runtime_def
  example_paid_request_def

lemma js_number_values:
  "js_number 0 = Fin 0 0" "js_number 1 = Fin 1 0" "js_number 300 = Fin 75 2"
  "js_number 196 = Fin 49 2" "js_number 84532 = Fin 21133 2"
  by (simp_all add: num_eval)

lemma amount_scenarios:
  "priceInSmallestUnit ''0.01'' = ''10000''"
  "priceInSmallestUnit ''0.1'' = ''100000''"
  "priceInSmallestUnit ''1'' = ''1000000''"
  by (simp_all add: num_eval)

lemma amount_can_exceed_floor:
  "priceInSmallestUnit ''0.99999999999999999999'' = ''1000000''"
  by (simp add: num_eval)

section \<open>The amount of a price: claims C3 and C4\<close>

lemma parseFloat_unreadable:
  assumes "case dropWhile is_js_whitespace s of
             [] \<Rightarrow> True | c # t \<Rightarrow> c \<notin> set ''0123456789+-.I''"
  shows "parseFloat s = NaN"
proof (cases "dropWhile is_js_whitespace s")
  case Nil
  show ?thesis by (simp only: parseFloat_def Nil list.case)
next
  case (Cons c t)
  with assms have c: "c \<notin> set ''0123456789+-.I''" by simp
  then have nd: "\<not> is_digit c"
    by (auto simp: is_digit_def digit_value_def)
  from c have "unsigned_decimal (c # t) = NaN"
    using nd by (auto simp: unsigned_decimal_def)
  with Cons c show ?thesis by (auto simp: parseFloat_def)
qed

lemma amount_NaN: "parseFloat s = NaN \<Longrightarrow> priceInSmallestUnit s = ''NaN''"
  by (simp add: priceInSmallestUnit_def)

lemma parseFloat_digits_prefix:
  assumes ds: "ds \<noteq> []" "list_all is_digit ds" and c: "\<not> is_digit c" "c \<notin> set ''.eE''"
  shows "parseFloat (ds @ c # rest) = parseFloat ds"
proof -
  obtain d ds' where d: "ds = d # ds'" using ds(1) by (cases ds) auto
  have dd: "is_digit d" using ds(2) d by simp
  have nws: "\<not> is_js_whitespace d" "d \<noteq> CHR ''-''" "d \<noteq> CHR ''+''" "d \<noteq> CHR ''I''"
      "d \<noteq> CHR ''.''"
    using dd by (auto simp: is_digit_def digit_value_def is_js_whitespace_def split: if_splits)
  have tw: "takeWhile is_digit (ds @ c # rest) = ds"
      "dropWhile is_digit (ds @ c # rest) = c # rest"
    using ds(2) c(1) by (simp_all add: list_all_iff)
  have tw': "takeWhile is_digit ds = ds" "dropWhile is_digit ds = []"
    using ds(2) by (simp_all add: list_all_iff)
  have u1: "unsigned_decimal (ds @ c # rest) = decimal_value ds [] 0"
    using tw c ds(1) d nws by (auto simp: unsigned_decimal_def exponent_part_def)
  have u2: "unsigned_decimal ds = decimal_value ds [] 0"
    using tw' ds(1) d nws by (auto simp: unsigned_decimal_def)
  show ?thesis
    using u1 u2 d nws by (simp add: parseFloat_def)
qed

lemma maxAmountRequired_built:
  "js_get (build_paymentRequirements rt cnf toolDef toolName cfg) ''maxAmountRequired'' =
     Inr (JStr (priceInSmallestUnit (price cfg)))"
  "js_get (accepts_entry rt cnf toolDef toolName cfg) ''maxAmountRequired'' =
     Inr (JStr (priceInSmallestUnit (price cfg)))"
  by (simp_all add: build_paymentRequirements_def accepts_entry_def obj_get_def)

text \<open>
  Claim C3. The claim: the \<^verbatim>\<open>maxAmountRequired\<close> of the built requirement is
  \<open>floor (price * 10 ^ 6)\<close> as a decimal integer string for every configuration. The code
  multiplies in binary floating point: for the price \<^verbatim>\<open>"2.01"\<close> both builders (the
  challenge's and the one for the facilitator) give \<^verbatim>\<open>"2009999"\<close>, whatever the rest of
  the configuration, while \<open>floor (2.01 * 10 ^ 6) = 2010000\<close>.
\<close>

theorem C3_amount_of_2_01:
  "js_get (build_paymentRequirements rt cnf toolDef toolName (cfg\<lparr>price := ''2.01''\<rparr>))
     ''maxAmountRequired'' = Inr (JStr ''2009999'') \<and>
   js_get (accepts_entry rt cnf toolDef toolName (cfg\<lparr>price := ''2.01''\<rparr>))
     ''maxAmountRequired'' = Inr (JStr ''2009999'')"
proof -
  have "priceInSmallestUnit ''2.01'' = ''2009999''"
    by (simp add: num_eval)
  then show ?thesis
    by (simp add: maxAmountRequired_built)
qed

text \<open>
  Claim C4, as amended. Building a requirement has no failure mode and no validation:
  both builders return an object for every price string. When the price, after leading
  white space, is empty or starts with a character that cannot start a decimal literal,
  the amount is the string \<^verbatim>\<open>"NaN"\<close>; when the price is a run of digits followed by
  other text (not a digit, a point or an exponent mark), the amount is that of the digits
  alone.
\<close>

theorem C4_malformed_price_not_rejected:
  "((case dropWhile is_js_whitespace (price cfg) of
       [] \<Rightarrow> True | c # t \<Rightarrow> c \<notin> set ''0123456789+-.I'') \<longrightarrow>
      js_get (build_paymentRequirements rt cnf toolDef toolName cfg) ''maxAmountRequired'' =
        Inr (JStr ''NaN'') \<and>
      js_get (accepts_entry rt cnf toolDef toolName cfg) ''maxAmountRequired'' =
        Inr (JStr ''NaN'')) \<and>
   (ds \<noteq> [] \<and> list_all is_digit ds \<and> \<not> is_digit c' \<and> c' \<notin> set ''.eE'' \<and>
    price cfg = ds @ c' # rest \<longrightarrow>
      js_get (build_paymentRequirements rt cnf toolDef toolName cfg) ''maxAmountRequired'' =
        Inr (JStr (priceInSmallestUnit ds)) \<and>
      js_get (accepts_entry rt cnf toolDef toolName cfg) ''maxAmountRequired'' =
        Inr (JStr (priceInSmallestUnit ds)))"
proof (intro conjI impI)
  assume "case dropWhile is_js_whitespace (price cfg) of
            [] \<Rightarrow> True | c # t \<Rightarrow> c \<notin> set ''0123456789+-.I''"
  then have nan: "priceInSmallestUnit (price cfg) = ''NaN''"
    by (intro amount_NaN parseFloat_unreadable)
  show "js_get (build_paymentRequirements rt cnf toolDef toolName cfg) ''maxAmountRequired'' =
          Inr (JStr ''NaN'')"
    by (simp add: maxAmountRequired_built nan)
  show "js_get (accepts_entry rt cnf toolDef toolName cfg) ''maxAmountRequired'' =
          Inr (JStr ''NaN'')"
    by (simp add: maxAmountRequired_built nan)
next
  assume h: "ds \<noteq> [] \<and> list_all is_digit ds \<and> \<not> is_digit c' \<and> c' \<notin> set ''.eE'' \<and>
             price cfg = ds @ c' # rest"
  then have "parseFloat (price cfg) = parseFloat ds"
    by (simp add: parseFloat_digits_prefix)
  then have eq: "priceInSmallestUnit (price cfg) = priceInSmallestUnit ds"
    by (simp add: priceInSmallestUnit_def)
  show "js_get (build_paymentRequirements rt cnf toolDef toolName cfg) ''maxAmountRequired'' =
          Inr (JStr (priceInSmallestUnit ds))"
    by (simp add: maxAmountRequired_built eq)
  show "js_get (accepts_entry rt cnf toolDef toolName cfg) ''maxAmountRequired'' =
          Inr (JStr (priceInSmallestUnit ds))"
    by (simp add: maxAmountRequired_built eq)
qed

theorem C4_malformed_price_not_rejected_witness:
  "js_get (build_paymentRequirements example_paid_runtime example_server example_tool
             ''premium_analysis'' (example_xlayer\<lparr>price := ''free''\<rparr>))
     ''maxAmountRequired'' = Inr (JStr ''NaN'') \<and>
   js_get (accepts_entry example_paid_runtime example_server example_tool
             ''premium_analysis'' (example_xlayer\<lparr>price := ''12 USDC''\<rparr>))
     ''maxAmountRequired'' = Inr (JStr ''12000000'')"
proof -
  have a: "priceInSmallestUnit ''12'' = ''12000000''"
    by (simp add: num_eval)
  have h1: "case dropWhile is_js_whitespace (price (example_xlayer\<lparr>price := ''free''\<rparr>)) of
              [] \<Rightarrow> True | c # t \<Rightarrow> c \<notin> set ''0123456789+-.I''"
    by (simp add: is_js_whitespace_def)
  have h2: "''12'' \<noteq> [] \<and> list_all is_digit ''12'' \<and> \<not> is_digit CHR '' '' \<and>
            CHR '' '' \<notin> set ''.eE'' \<and>
            price (example_xlayer\<lparr>price := ''12 USDC''\<rparr>) = ''12'' @ CHR '' '' # ''USDC''"
    by (simp add: is_digit_def digit_value_def)
  show ?thesis
    using C4_malformed_price_not_rejected
            [of "example_xlayer\<lparr>price := ''free''\<rparr>" example_paid_runtime example_server
                example_tool "''premium_analysis''" "''12''" "CHR '' ''" "''USDC''"]
          C4_malformed_price_not_rejected
            [of "example_xlayer\<lparr>price := ''12 USDC''\<rparr>" example_paid_runtime example_server
                example_tool "''premium_analysis''" "''12''" "CHR '' ''" "''USDC''"]
          h1 h2 a
    by simp
qed

text \<open>
  The claim C4 as stated (a malformed price makes the build fail with a validation error
  and is never turned into zero or another amount) fails: the decimal-comma price
  \<^verbatim>\<open>"0,5"\<close> builds a requirement whose amount is \<^verbatim>\<open>"0"\<close>, and \<^verbatim>\<open>"abc"\<close> builds one
  whose amount is \<^verbatim>\<open>"NaN"\<close>.
\<close>

theorem C4_malformed_price_counterexample:
  "js_get (build_paymentRequirements example_paid_runtime example_server example_tool
             ''premium_analysis'' (example_xlayer\<lparr>price := ''0,5''\<rparr>))
     ''maxAmountRequired'' = Inr (JStr ''0'') \<and>
   js_get (accepts_entry example_paid_runtime example_server example_tool
             ''premium_analysis'' (example_xlayer\<lparr>price := ''abc''\<rparr>))
     ''maxAmountRequired'' = Inr (JStr ''NaN'')"
proof -
  have "priceInSmallestUnit ''0,5'' = ''0''" "priceInSmallestUnit ''abc'' = ''NaN''"
    by (simp_all add: num_eval)
  then show ?thesis
    by (simp add: maxAmountRequired_built)
qed

section \<open>The facilitator gateway: claims C5, C6 and C10\<close>

lemma obj_delete_absent: "k \<notin> fst ` set (obj_delete kvs k)"
  by (auto simp: obj_delete_def)

lemma obj_get_obj_set_same: "obj_get (obj_set kvs k v) k = v"
  by (induction kvs) (auto simp: obj_get_def)

lemma obj_get_obj_set_other: "k' \<noteq> k \<Longrightarrow> obj_get (obj_set kvs k v) k' = obj_get kvs k'"
  by (induction kvs) (auto simp: obj_get_def)

lemma toUpperCase_POST: "toUpperCase ''POST'' = ''POST''"
  by (simp add: toUpperCase_def upper_char_def)








lemma canonical_index_0: "canonical_index ''0'' = Some 0"
  by (simp add: canonical_index_def is_digit_def digit_value_def)





text \<open>Only a proof that is an object gets as far as a facilitator call.\<close>

lemma js_get_network_of_non_object:
  assumes "\<forall>kvs. v \<noteq> JObj kvs" "js_get v ''network'' = Inr x"
  shows "x = JUndefined"
  using assms
  by (cases v) (auto simp: canonical_index_def is_digit_def digit_value_def)

lemma gateway_receives_objects:
  assumes "process_payment rt cnf toolDef request cfgs decodedPayment = (evs, res)"
      and "evs \<noteq> []"
  shows "\<exists>kvs. decodedPayment = JObj kvs"
proof (rule ccontr)
  assume "\<not> (\<exists>kvs. decodedPayment = JObj kvs)"
  then have n: "\<forall>kvs. decodedPayment \<noteq> JObj kvs" by simp
  show False
  proof (cases "js_get decodedPayment ''network''")
    case (Inl e)
    with assms show False by (simp add: process_payment_def)
  next
    case (Inr x)
    with n have "x = JUndefined" by (rule js_get_network_of_non_object)
    with Inr assms show False by (simp add: process_payment_def)
  qed
qed

text \<open>
  Claim C5, as amended: for a facilitator of type okx that has a credential bundle. The
  payload keeps no \<^verbatim>\<open>network\<close> in the proof or in the requirements and carries
  \<^verbatim>\<open>chainIndex\<close>, the chain id as a string; the request is a POST to
  \<^verbatim>\<open>/api/v6/x402/<action>\<close> under the facilitator's URL with exactly the five
  headers, in which \<^verbatim>\<open>OK-ACCESS-SIGN\<close> is the base64 HMAC-SHA256, keyed by the secret,
  of the timestamp, \<^verbatim>\<open>POST\<close>, the path and the JSON body; the body is that JSON text.
\<close>

theorem C5_signed_request:
  assumes "ftype facilitator = Some okx" and "okxCredentials facilitator = Some credentials"
  shows
    "(\<exists>pp pr.
        facilitator_payload facilitator cfg decodedPayment paymentRequirements =
          [(''x402Version'', JNum (js_number 1)),
           (''paymentPayload'', JObj pp),
           (''paymentRequirements'', JObj pr),
           (''chainIndex'', JStr (Number_toString (chainId cfg)))] \<and>
        ''network'' \<notin> fst ` set pp \<and> ''network'' \<notin> fst ` set pr) \<and>
     fst (callFacilitator rt k a facilitator cfg decodedPayment paymentRequirements) =
       \<lparr>request_url = url facilitator @ ''/api/v6/x402/'' @ action_name a,
        request_method = ''POST'',
        request_headers =
          [(''Content-Type'', ''application/json''),
           (''OK-ACCESS-KEY'', apiKey credentials),
           (''OK-ACCESS-SIGN'',
              hmac_sha256_base64 rt (secretKey credentials)
                (now_toISOString rt k @ ''POST'' @ (''/api/v6/x402/'' @ action_name a) @
                 JSON_stringify rt
                   (JObj (facilitator_payload facilitator cfg decodedPayment
                            paymentRequirements)))),
           (''OK-ACCESS-PASSPHRASE'', passphrase credentials),
           (''OK-ACCESS-TIMESTAMP'', now_toISOString rt k)],
        request_body =
          (if JSON_stringify rt
                (JObj (facilitator_payload facilitator cfg decodedPayment
                         paymentRequirements)) = []
           then None
           else Some (JSON_stringify rt
                        (JObj (facilitator_payload facilitator cfg decodedPayment
                                 paymentRequirements))))\<rparr>"
proof (intro conjI)
  show "\<exists>pp pr.
        facilitator_payload facilitator cfg decodedPayment paymentRequirements =
          [(''x402Version'', JNum (js_number 1)),
           (''paymentPayload'', JObj pp),
           (''paymentRequirements'', JObj pr),
           (''chainIndex'', JStr (Number_toString (chainId cfg)))] \<and>
        ''network'' \<notin> fst ` set pp \<and> ''network'' \<notin> fst ` set pr"
    using assms(1) obj_delete_absent by (simp add: facilitator_payload_def)
next
  have post: "toUpperCase ''POST'' \<noteq> ''GET''"
    by (simp add: toUpperCase_POST)
  show "fst (callFacilitator rt k a facilitator cfg decodedPayment paymentRequirements) =
       \<lparr>request_url = url facilitator @ ''/api/v6/x402/'' @ action_name a,
        request_method = ''POST'',
        request_headers =
          [(''Content-Type'', ''application/json''),
           (''OK-ACCESS-KEY'', apiKey credentials),
           (''OK-ACCESS-SIGN'',
              hmac_sha256_base64 rt (secretKey credentials)
                (now_toISOString rt k @ ''POST'' @ (''/api/v6/x402/'' @ action_name a) @
                 JSON_stringify rt
                   (JObj (facilitator_payload facilitator cfg decodedPayment
                            paymentRequirements)))),
           (''OK-ACCESS-PASSPHRASE'', passphrase credentials),
           (''OK-ACCESS-TIMESTAMP'', now_toISOString rt k)],
        request_body =
          (if JSON_stringify rt
                (JObj (facilitator_payload facilitator cfg decodedPayment
                         paymentRequirements)) = []
           then None
           else Some (JSON_stringify rt
                        (JObj (facilitator_payload facilitator cfg decodedPayment
                                 paymentRequirements))))\<rparr>"
    using assms post
    by (simp add: callFacilitator_def facilitator_request_def makeOKXRequest_def
        generateOKXHeaders_def toUpperCase_POST)
qed

theorem C5_signed_request_witness:
  "ftype example_okx = Some okx \<and> okxCredentials example_okx = Some example_credentials \<and>
   request_url (fst (callFacilitator example_paid_runtime 1 settle example_okx example_xlayer
       example_xlayer_proof (example_requirements example_xlayer))) =
     ''https://www.okx.com/api/v6/x402/settle'' \<and>
   map fst (request_headers (fst (callFacilitator example_paid_runtime 1 settle example_okx
       example_xlayer example_xlayer_proof (example_requirements example_xlayer)))) =
     [''Content-Type'', ''OK-ACCESS-KEY'', ''OK-ACCESS-SIGN'', ''OK-ACCESS-PASSPHRASE'',
      ''OK-ACCESS-TIMESTAMP''] \<and>
   obj_get (facilitator_payload example_okx example_xlayer example_xlayer_proof
              (example_requirements example_xlayer)) ''chainIndex'' = JStr ''196'' \<and>
   obj_get (facilitator_payload example_okx example_xlayer example_xlayer_proof
              (example_requirements example_xlayer)) ''paymentPayload'' =
     JObj [(''payload'', JStr ''signed-authorization'')]"
proof -
  have h1: "ftype example_okx = Some okx"
    by (simp add: example_okx_def)
  have h2: "okxCredentials example_okx = Some example_credentials"
    by (simp add: example_okx_def)
  note T = C5_signed_request [OF h1 h2, where rt = example_paid_runtime and k = 1
      and a = settle and cfg = example_xlayer and decodedPayment = example_xlayer_proof
      and paymentRequirements = "example_requirements example_xlayer"]
  have c: "Number_toString (chainId example_xlayer) = ''196''"
    by (simp add: example_xlayer_def num_eval)
  have r1: "request_url (fst (callFacilitator example_paid_runtime 1 settle example_okx
       example_xlayer example_xlayer_proof (example_requirements example_xlayer))) =
     ''https://www.okx.com/api/v6/x402/settle''"
    by (subst T [THEN conjunct2]) (simp add: example_okx_def)
  have r2: "map fst (request_headers (fst (callFacilitator example_paid_runtime 1 settle
       example_okx example_xlayer example_xlayer_proof (example_requirements example_xlayer)))) =
     [''Content-Type'', ''OK-ACCESS-KEY'', ''OK-ACCESS-SIGN'', ''OK-ACCESS-PASSPHRASE'',
      ''OK-ACCESS-TIMESTAMP'']"
    by (subst T [THEN conjunct2]) simp
  from T [THEN conjunct1] obtain pp pr where
    p: "facilitator_payload example_okx example_xlayer example_xlayer_proof
          (example_requirements example_xlayer) =
        [(''x402Version'', JNum (js_number 1)), (''paymentPayload'', JObj pp),
         (''paymentRequirements'', JObj pr),
         (''chainIndex'', JStr (Number_toString (chainId example_xlayer)))]"
    by blast
  have r3: "obj_get (facilitator_payload example_okx example_xlayer example_xlayer_proof
              (example_requirements example_xlayer)) ''chainIndex'' = JStr ''196''"
    by (subst p) (simp add: obj_get_def c)
  have r4: "obj_get (facilitator_payload example_okx example_xlayer example_xlayer_proof
              (example_requirements example_xlayer)) ''paymentPayload'' =
     JObj [(''payload'', JStr ''signed-authorization'')]"
    by (simp add: facilitator_payload_def h1 obj_get_def obj_delete_def example_xlayer_proof_def)
  show ?thesis
    using h1 h2 r1 r2 r3 r4 by blast
qed

text \<open>
  The claim C5 as stated, for every facilitator of type okx, fails for one that has no
  credentials: the request goes to the plain path and carries one header.
\<close>

theorem C5_unsigned_okx_counterexample:
  "ftype example_okx_unsigned = Some okx \<and>
   request_url (fst (callFacilitator example_paid_runtime 0 verify example_okx_unsigned
       example_xlayer example_xlayer_proof (example_requirements example_xlayer))) =
     ''https://www.okx.com/verify'' \<and>
   request_url (fst (callFacilitator example_paid_runtime 0 verify example_okx_unsigned
       example_xlayer example_xlayer_proof (example_requirements example_xlayer))) \<noteq>
     url example_okx_unsigned @ ''/api/v6/x402/verify'' \<and>
   request_headers (fst (callFacilitator example_paid_runtime 0 verify example_okx_unsigned
       example_xlayer example_xlayer_proof (example_requirements example_xlayer))) =
     [(''Content-Type'', ''application/json'')]"
  by (simp add: callFacilitator_def facilitator_request_def example_okx_unsigned_def)

text \<open>
  Claim C6. For a facilitator whose type is not okx (standard, or no type given) and a
  proof that is an object, as every proof that reaches the gateway is
  (\<open>gateway_receives_objects\<close>): the request is a
  POST to \<^verbatim>\<open>/<action>\<close> under the facilitator's URL with \<^verbatim>\<open>Content-Type\<close> as its only
  header; in the payload the proof is forwarded as it is and the requirements carry
  \<^verbatim>\<open>network\<close>, the configuration's network, with their other fields unchanged; and for
  a response with a success status the parsed body is the result of the call, as it is.
\<close>

theorem C6_plain_request:
  assumes "ftype facilitator \<noteq> Some okx"
  shows
    "(\<exists>pr.
        facilitator_payload facilitator cfg (JObj pp) paymentRequirements =
          [(''x402Version'', JNum (js_number 1)),
           (''paymentPayload'', JObj pp),
           (''paymentRequirements'', JObj pr)] \<and>
        obj_get pr ''network'' = JStr (network cfg) \<and>
        (\<forall>key. key \<noteq> ''network'' \<longrightarrow> obj_get pr key = obj_get (spread paymentRequirements) key)) \<and>
     fst (callFacilitator rt k a facilitator cfg (JObj pp) paymentRequirements) =
       \<lparr>request_url = url facilitator @ ''/'' @ action_name a,
        request_method = ''POST'',
        request_headers = [(''Content-Type'', ''application/json'')],
        request_body =
          Some (JSON_stringify rt
                  (JObj (facilitator_payload facilitator cfg (JObj pp)
                           paymentRequirements)))\<rparr> \<and>
     (\<forall>response.
        fetch rt k (fst (callFacilitator rt k a facilitator cfg (JObj pp)
                           paymentRequirements)) = Inr response \<and>
        response_ok response \<longrightarrow>
        snd (callFacilitator rt k a facilitator cfg (JObj pp) paymentRequirements) =
          response_json response)"
proof (intro conjI allI impI)
  show "\<exists>pr.
        facilitator_payload facilitator cfg (JObj pp) paymentRequirements =
          [(''x402Version'', JNum (js_number 1)),
           (''paymentPayload'', JObj pp),
           (''paymentRequirements'', JObj pr)] \<and>
        obj_get pr ''network'' = JStr (network cfg) \<and>
        (\<forall>key. key \<noteq> ''network'' \<longrightarrow> obj_get pr key = obj_get (spread paymentRequirements) key)"
    using assms
    by (simp add: facilitator_payload_def obj_get_obj_set_same obj_get_obj_set_other)
next
  show "fst (callFacilitator rt k a facilitator cfg (JObj pp) paymentRequirements) =
       \<lparr>request_url = url facilitator @ ''/'' @ action_name a,
        request_method = ''POST'',
        request_headers = [(''Content-Type'', ''application/json'')],
        request_body =
          Some (JSON_stringify rt
                  (JObj (facilitator_payload facilitator cfg (JObj pp)
                           paymentRequirements)))\<rparr>"
    using assms
    by (simp add: callFacilitator_def facilitator_request_def split: option.splits)
next
  fix response
  assume "fetch rt k (fst (callFacilitator rt k a facilitator cfg (JObj pp)
                           paymentRequirements)) = Inr response \<and> response_ok response"
  then show "snd (callFacilitator rt k a facilitator cfg (JObj pp) paymentRequirements) =
          response_json response"
    using assms
    by (simp add: callFacilitator_def facilitator_result_def split: sum.splits)
qed

theorem C6_plain_request_witness:
  "ftype example_standard \<noteq> Some okx \<and>
   fst (callFacilitator
          (example_runtime (json_response (JObj [(''isValid'', JBool True)])) (Inl (ErrorObj [])))
          0 verify example_standard example_base
          (JObj [(''network'', JStr ''base-sepolia'')])
          (JObj [(''scheme'', JStr ''exact'')])) =
     \<lparr>request_url = ''https://x402.org/facilitator/verify'',
      request_method = ''POST'',
      request_headers = [(''Content-Type'', ''application/json'')],
      request_body = Some (example_stringify (JObj
        [(''x402Version'', JNum (Fin 1 0)),
         (''paymentPayload'', JObj [(''network'', JStr ''base-sepolia'')]),
         (''paymentRequirements'',
            JObj [(''scheme'', JStr ''exact''), (''network'', JStr ''base-sepolia'')])]))\<rparr> \<and>
   snd (callFacilitator
          (example_runtime (json_response (JObj [(''isValid'', JBool True)])) (Inl (ErrorObj [])))
          0 verify example_standard example_base
          (JObj [(''network'', JStr ''base-sepolia'')])
          (JObj [(''scheme'', JStr ''exact'')])) = Inr (JObj [(''isValid'', JBool True)])"
proof -
  have h: "ftype example_standard \<noteq> Some okx"
    by (simp add: example_standard_def)
  note T = C6_plain_request [OF h,
      where rt = "example_runtime (json_response (JObj [(''isValid'', JBool True)]))
                    (Inl (ErrorObj []))"
      and k = 0 and a = verify and cfg = example_base
      and pp = "[(''network'', JStr ''base-sepolia'')]"
      and paymentRequirements = "JObj [(''scheme'', JStr ''exact'')]"]
  have p: "facilitator_payload example_standard example_base
             (JObj [(''network'', JStr ''base-sepolia'')]) (JObj [(''scheme'', JStr ''exact'')]) =
           [(''x402Version'', JNum (Fin 1 0)),
            (''paymentPayload'', JObj [(''network'', JStr ''base-sepolia'')]),
            (''paymentRequirements'',
               JObj [(''scheme'', JStr ''exact''), (''network'', JStr ''base-sepolia'')])]"
    by (simp add: facilitator_payload_def example_standard_def example_base_def
        js_number_values)
  have r1: "fst (callFacilitator
          (example_runtime (json_response (JObj [(''isValid'', JBool True)])) (Inl (ErrorObj [])))
          0 verify example_standard example_base
          (JObj [(''network'', JStr ''base-sepolia'')])
          (JObj [(''scheme'', JStr ''exact'')])) =
     \<lparr>request_url = ''https://x402.org/facilitator/verify'',
      request_method = ''POST'',
      request_headers = [(''Content-Type'', ''application/json'')],
      request_body = Some (example_stringify (JObj
        [(''x402Version'', JNum (Fin 1 0)),
         (''paymentPayload'', JObj [(''network'', JStr ''base-sepolia'')]),
         (''paymentRequirements'',
            JObj [(''scheme'', JStr ''exact''), (''network'', JStr ''base-sepolia'')])]))\<rparr>"
    by (subst T [THEN conjunct2, THEN conjunct1], subst p)
       (simp add: example_standard_def example_runtime_def)
  have r2: "snd (callFacilitator
          (example_runtime (json_response (JObj [(''isValid'', JBool True)])) (Inl (ErrorObj [])))
          0 verify example_standard example_base
          (JObj [(''network'', JStr ''base-sepolia'')])
          (JObj [(''scheme'', JStr ''exact'')])) = Inr (JObj [(''isValid'', JBool True)])"
    by (subst T [THEN conjunct2, THEN conjunct2, rule_format,
          where response = "\<lparr>response_ok = True,
            response_text = Inr (example_stringify (JObj [(''isValid'', JBool True)])),
            response_json = Inr (JObj [(''isValid'', JBool True)])\<rparr>"])
       (simp_all add: example_runtime_def json_response_def)
  show ?thesis
    using h r1 r2 by blast
qed



section \<open>The payment lifecycle: claims C1, C2, C7, C8 and C9\<close>

lemma error_result_flagged [simp]:
  "isError (error_result rt props) = Some True"
  "result_meta (error_result rt props) = None"
  by (simp_all add: error_result_def)


lemma execute_tool_cases:
  assumes "execute_tool rt toolDef request fac cfg pay reqs = (evs, res)"
  shows "(evs = [] \<and> (\<exists>e. res = Inl e)) \<or>
         (\<exists>args e. evs = [HandlerCall args (Inl e)] \<and> res = Inl e) \<or>
         (\<exists>args r. evs = [HandlerCall args (Inr r)] \<and> isError r = Some True \<and> res = Inr r) \<or>
         (\<exists>args r rq out.
            evs = [HandlerCall args (Inr r), FacilitatorCall settle rq out] \<and>
            isError r \<noteq> Some True \<and> res = Inr (settle_outcome rt r out))"
proof (cases "paramsSchema toolDef (params_arguments request)")
  case (Inl e)
  from assms [symmetric] show ?thesis
    unfolding execute_tool_def Inl by simp
next
  case args: (Inr args)
  show ?thesis
  proof (cases "callback toolDef args (params_meta request)")
    case (Inl e)
    from assms [symmetric] show ?thesis
      by (simp add: execute_tool_def args Inl)
  next
    case (Inr r)
    show ?thesis
    proof (cases "isError r = Some True")
      case True
      from assms [symmetric] show ?thesis
        by (simp add: execute_tool_def args Inr True)
    next
      case False
      from assms [symmetric] show ?thesis
        by (auto simp: execute_tool_def args Inr False settle_payment_def split: prod.splits)
    qed
  qed
qed

lemma verify_payment_cases:
  assumes "verify_payment rt toolDef request fac cfg pay reqs = (evs, res)"
  shows "(\<exists>rq out. evs = [FacilitatorCall verify rq out] \<and>
            ((\<exists>e. res = Inl e) \<or> (\<exists>props. res = Inr (error_result rt props)))) \<or>
         (\<exists>rq vr v evs'.
            evs = FacilitatorCall verify rq (Inr vr) # evs' \<and>
            js_get vr ''isValid'' = Inr v \<and> js_truthy v \<and>
            execute_tool rt toolDef request fac cfg pay reqs = (evs', res))"
proof -
  obtain rq out where c:
    "callFacilitator rt 0 verify fac cfg pay reqs = (rq, out)"
    by (cases "callFacilitator rt 0 verify fac cfg pay reqs") auto
  show ?thesis
  proof (cases out)
    case (Inl e)
    from assms [symmetric] show ?thesis
      by (simp add: verify_payment_def c Inl)
  next
    case vr: (Inr vr)
    show ?thesis
    proof (cases "js_get vr ''isValid''")
      case (Inl e)
      from assms [symmetric] show ?thesis
        by (simp add: verify_payment_def c vr Inl)
    next
      case v: (Inr v)
      show ?thesis
      proof (cases "js_truthy v")
        case True
        obtain evs' res' where e:
          "execute_tool rt toolDef request fac cfg pay reqs = (evs', res')"
          by (cases "execute_tool rt toolDef request fac cfg pay reqs") auto
        from assms [symmetric] show ?thesis
          by (simp add: verify_payment_def c vr v e True)
      next
        case False
        from assms [symmetric] show ?thesis
          by (cases "js_get vr ''invalidReason''")
             (auto simp: verify_payment_def c vr v False)
      qed
    qed
  qed
qed

lemma process_payment_cases:
  assumes "process_payment rt cnf toolDef request cfgs pay = (evs, res)"
  shows "(evs = [] \<and> (\<exists>e. res = Inl e)) \<or>
         (\<exists>fac cfg.
            verify_payment rt toolDef request fac cfg pay
              (build_paymentRequirements rt cnf toolDef (params_name request) cfg) = (evs, res))"
  using assms
  by (auto simp: process_payment_def split: sum.splits if_splits option.splits)

text \<open>The runs of a paid call, by their events.\<close>

lemma paid_call_cases:
  assumes "paid_call rt cnf toolDef request cfgs = (evs, x)"
  shows "(evs = [] \<and> (\<exists>props. x = error_result rt props)) \<or>
         (\<exists>rq out. evs = [FacilitatorCall verify rq out] \<and>
            (\<exists>props. x = error_result rt props)) \<or>
         (\<exists>rq vr v args e.
            evs = [FacilitatorCall verify rq (Inr vr), HandlerCall args (Inl e)] \<and>
            js_get vr ''isValid'' = Inr v \<and> js_truthy v \<and>
            (\<exists>props. x = error_result rt props)) \<or>
         (\<exists>rq vr v args r.
            evs = [FacilitatorCall verify rq (Inr vr), HandlerCall args (Inr r)] \<and>
            js_get vr ''isValid'' = Inr v \<and> js_truthy v \<and>
            isError r = Some True \<and> x = r) \<or>
         (\<exists>rq vr v args r rq' out.
            evs = [FacilitatorCall verify rq (Inr vr), HandlerCall args (Inr r),
                   FacilitatorCall settle rq' out] \<and>
            js_get vr ''isValid'' = Inr v \<and> js_truthy v \<and>
            isError r \<noteq> Some True \<and> x = settle_outcome rt r out)"
proof (cases "js_truthy (case params_meta request of None \<Rightarrow> JUndefined
                         | Some m \<Rightarrow> obj_get m ''x402.payment'')")
  case False
  with assms show ?thesis
    by (auto simp: paid_call_def payment_required_def)
next
  case True
  define payment where
    "payment = (case params_meta request of None \<Rightarrow> JUndefined
                | Some m \<Rightarrow> obj_get m ''x402.payment'')"
  obtain evs0 res0 where inner:
    "(case base64_json_parse rt payment of
        Inl err \<Rightarrow> ([], Inl err)
      | Inr decodedPayment \<Rightarrow>
          process_payment rt cnf toolDef request cfgs decodedPayment) = (evs0, res0)"
    by (cases "(case base64_json_parse rt payment of
        Inl err \<Rightarrow> ([], Inl err)
      | Inr decodedPayment \<Rightarrow>
          process_payment rt cnf toolDef request cfgs decodedPayment)") auto
  have out: "evs = evs0"
            "x = (case res0 of
                    Inl err \<Rightarrow> error_result rt
                        [(''error'', JStr ''Payment processing error''),
                         (''details'', JStr (error_details err))]
                  | Inr r \<Rightarrow> r)"
    using assms True inner
    by (auto simp: paid_call_def payment_def Let_def split: sum.splits)
  have shapes:
    "(evs0 = [] \<and> (\<exists>e. res0 = Inl e)) \<or>
     (\<exists>fac cfg pay.
        verify_payment rt toolDef request fac cfg pay
          (build_paymentRequirements rt cnf toolDef (params_name request) cfg) = (evs0, res0))"
    using inner process_payment_cases [of rt cnf toolDef request cfgs _ evs0 res0]
    by (auto split: sum.splits)
  then show ?thesis
  proof
    assume "evs0 = [] \<and> (\<exists>e. res0 = Inl e)"
    then show ?thesis using out by auto
  next
    assume "\<exists>fac cfg pay.
        verify_payment rt toolDef request fac cfg pay
          (build_paymentRequirements rt cnf toolDef (params_name request) cfg) = (evs0, res0)"
    then obtain fac cfg pay where v:
      "verify_payment rt toolDef request fac cfg pay
          (build_paymentRequirements rt cnf toolDef (params_name request) cfg) = (evs0, res0)"
      by blast
    from verify_payment_cases [OF v] show ?thesis
    proof
      assume "\<exists>rq out. evs0 = [FacilitatorCall verify rq out] \<and>
            ((\<exists>e. res0 = Inl e) \<or> (\<exists>props. res0 = Inr (error_result rt props)))"
      then show ?thesis using out by auto
    next
      assume "\<exists>rq vr v evs'.
            evs0 = FacilitatorCall verify rq (Inr vr) # evs' \<and>
            js_get vr ''isValid'' = Inr v \<and> js_truthy v \<and>
            execute_tool rt toolDef request fac cfg pay
              (build_paymentRequirements rt cnf toolDef (params_name request) cfg) =
              (evs', res0)"
      then obtain rq vr v evs' where e:
        "evs0 = FacilitatorCall verify rq (Inr vr) # evs'"
        "js_get vr ''isValid'' = Inr v" "js_truthy v"
        "execute_tool rt toolDef request fac cfg pay
           (build_paymentRequirements rt cnf toolDef (params_name request) cfg) = (evs', res0)"
        by blast
      from execute_tool_cases [OF e(4)] e(1-3) out show ?thesis
        by (elim disjE exE conjE) (simp_all, blast+)
    qed
  qed
qed

lemma handle_call_paid:
  assumes "find (\<lambda>t. tool_name t = params_name request) tools = Some toolDef"
      and "paymentOptions toolDef = Some paymentConfigs"
  shows "handle_call rt cnf tools request =
           (fst (paid_call rt cnf toolDef request paymentConfigs),
            Inr (snd (paid_call rt cnf toolDef request paymentConfigs)))"
  using assms by (simp add: handle_call_def split: prod.splits)





text \<open>Two runs of the concrete deployment, evaluated.\<close>

lemmas run_eval =
  handle_call_def paid_call_def process_payment_def verify_payment_def execute_tool_def
  settle_payment_def settle_outcome_def callFacilitator_def facilitator_result_def
  okx_unwrap_def obj_get_def canonical_index_0 js_number_values example_defs

lemma example_find:
  "find (\<lambda>t. tool_name t = params_name example_paid_request) [example_tool] = Some example_tool"
  "find (\<lambda>t. tool_name t = params_name (example_request m)) [example_tool] = Some example_tool"
  "paymentOptions example_tool = Some [example_xlayer, example_base]"
  by (simp_all add: example_defs)

lemma example_paid_run:
  "\<exists>rq rq'.
     handle_call example_paid_runtime example_server [example_tool] example_paid_request =
       ([FacilitatorCall verify rq (Inr (JObj [(''isValid'', JBool True)])),
         HandlerCall (JObj [(''data'', JStr ''abc'')]) (Inr example_tool_result),
         FacilitatorCall settle rq'
           (Inr (JObj [(''success'', JBool True), (''txHash'', JStr ''0xabc'')]))],
        Inr (example_tool_result
               \<lparr>result_meta :=
                  Some [(''trace'', JStr ''t-1''),
                        (''x402.payment-response'',
                           JObj [(''settled'', JBool True), (''txHash'', JStr ''0xabc'')])]\<rparr>))"
  by (simp add: run_eval)


text \<open>
  Claim C1. In every call of a paid tool, a settle call occurs only in a run whose
  events are exactly: verify, which returned a result whose \<^verbatim>\<open>isValid\<close> is truthy (for
  the boolean that the declared type allows: \<^verbatim>\<open>true\<close>, not \<^verbatim>\<open>false\<close>); then the handler, which
  returned a result whose \<^verbatim>\<open>isError\<close> is absent or false; then that one settle call.
  And whenever the handler is invoked, the run starts with a verify call that returned a
  valid result, immediately followed by the handler's invocation.
\<close>

theorem C1_settle_after_verified_execution:
  assumes "find (\<lambda>t. tool_name t = params_name request) tools = Some toolDef"
      and "paymentOptions toolDef = Some paymentConfigs"
      and "handle_call rt cnf tools request = (evs, res)"
  shows "(\<forall>rq' out'. FacilitatorCall settle rq' out' \<in> set evs \<longrightarrow>
            (\<exists>rq vr v args r.
               evs = [FacilitatorCall verify rq (Inr vr), HandlerCall args (Inr r),
                      FacilitatorCall settle rq' out'] \<and>
               js_get vr ''isValid'' = Inr v \<and> js_truthy v \<and> v \<noteq> JBool False \<and>
               (isError r = None \<or> isError r = Some False))) \<and>
         (\<forall>args out. HandlerCall args out \<in> set evs \<longrightarrow>
            (\<exists>rq vr v rest.
               evs = FacilitatorCall verify rq (Inr vr) # HandlerCall args out # rest \<and>
               js_get vr ''isValid'' = Inr v \<and> js_truthy v))"
proof -
  have run: "paid_call rt cnf toolDef request paymentConfigs =
               (evs, snd (paid_call rt cnf toolDef request paymentConfigs))"
    using handle_call_paid [OF assms(1,2), of rt cnf] assms(3)
    by (simp add: prod_eq_iff)
  have flag: "isError r \<noteq> Some True \<Longrightarrow> isError r = None \<or> isError r = Some False" for r :: ToolResult
    by (cases "isError r") auto
  from paid_call_cases [OF run] show ?thesis
    by (elim disjE exE conjE) (auto dest: flag)
qed

theorem C1_settle_after_verified_execution_witness:
  "\<exists>evs res rq' out'.
     find (\<lambda>t. tool_name t = params_name example_paid_request) [example_tool] =
       Some example_tool \<and>
     paymentOptions example_tool = Some [example_xlayer, example_base] \<and>
     handle_call example_paid_runtime example_server [example_tool] example_paid_request =
       (evs, res) \<and>
     FacilitatorCall settle rq' out' \<in> set evs \<and>
     HandlerCall (JObj [(''data'', JStr ''abc'')]) (Inr example_tool_result) \<in> set evs \<and>
     (\<exists>rq vr v args r.
        evs = [FacilitatorCall verify rq (Inr vr), HandlerCall args (Inr r),
               FacilitatorCall settle rq' out'] \<and>
        js_get vr ''isValid'' = Inr v \<and> js_truthy v \<and>
        (isError r = None \<or> isError r = Some False)) \<and>
     (\<exists>rq vr v rest.
        evs = FacilitatorCall verify rq (Inr vr) #
              HandlerCall (JObj [(''data'', JStr ''abc'')]) (Inr example_tool_result) # rest \<and>
        js_get vr ''isValid'' = Inr v \<and> js_truthy v)"
proof -
  from example_paid_run obtain rq rq' where
    run: "handle_call example_paid_runtime example_server [example_tool] example_paid_request =
       ([FacilitatorCall verify rq (Inr (JObj [(''isValid'', JBool True)])),
         HandlerCall (JObj [(''data'', JStr ''abc'')]) (Inr example_tool_result),
         FacilitatorCall settle rq'
           (Inr (JObj [(''success'', JBool True), (''txHash'', JStr ''0xabc'')]))],
        Inr (example_tool_result
               \<lparr>result_meta :=
                  Some [(''trace'', JStr ''t-1''),
                        (''x402.payment-response'',
                           JObj [(''settled'', JBool True), (''txHash'', JStr ''0xabc'')])]\<rparr>))"
    by blast
  note T = C1_settle_after_verified_execution [OF example_find(1) example_find(3) run]
  have s: "FacilitatorCall settle rq'
             (Inr (JObj [(''success'', JBool True), (''txHash'', JStr ''0xabc'')])) \<in>
           set [FacilitatorCall verify rq (Inr (JObj [(''isValid'', JBool True)])),
                HandlerCall (JObj [(''data'', JStr ''abc'')]) (Inr example_tool_result),
                FacilitatorCall settle rq'
                  (Inr (JObj [(''success'', JBool True), (''txHash'', JStr ''0xabc'')]))]"
    by simp
  have h: "HandlerCall (JObj [(''data'', JStr ''abc'')]) (Inr example_tool_result) \<in>
           set [FacilitatorCall verify rq (Inr (JObj [(''isValid'', JBool True)])),
                HandlerCall (JObj [(''data'', JStr ''abc'')]) (Inr example_tool_result),
                FacilitatorCall settle rq'
                  (Inr (JObj [(''success'', JBool True), (''txHash'', JStr ''0xabc'')]))]"
    by simp
  from T [THEN conjunct1, rule_format, OF s] T [THEN conjunct2, rule_format, OF h]
  show ?thesis
    using example_find(1) example_find(3) run s h by blast
qed

text \<open>
  Claim C2. A call of a paid tool whose metadata has no \<^verbatim>\<open>x402.payment\<close> entry (or
  that has no metadata) makes no facilitator call and does not invoke the handler; it
  returns an error-flagged result whose text is the JSON of \<^verbatim>\<open>x402Version\<close> 1, the
  error \<^verbatim>\<open>_meta.x402.payment is required\<close> and \<^verbatim>\<open>accepts\<close>, the list of one entry per
  configuration, in order. Each entry has the scheme \<^verbatim>\<open>exact\<close>, the configuration's
  network and token (as \<^verbatim>\<open>asset\<close>), the recipient as \<^verbatim>\<open>payTo\<close>, 300 seconds,
  \<^verbatim>\<open>application/json\<close> and the resource \<^verbatim>\<open><base URL>/mcp/tools/<name>\<close>, the base URL
  being \<^verbatim>\<open>process.env.URL\<close> or else \<^verbatim>\<open>http://localhost:3000\<close>.
\<close>

theorem C2_payment_required:
  assumes "find (\<lambda>t. tool_name t = params_name request) tools = Some toolDef"
      and "paymentOptions toolDef = Some paymentConfigs"
      and "case params_meta request of
             None \<Rightarrow> True | Some m \<Rightarrow> map_of m ''x402.payment'' = None"
  shows "handle_call rt cnf tools request =
           ([],
            Inr \<lparr>content =
                   [\<lparr>block_type = text_type,
                     block_text =
                       Some (JSON_stringify rt
                               (JObj [(''x402Version'', JNum (js_number 1)),
                                      (''error'', JStr ''_meta.x402.payment is required''),
                                      (''accepts'',
                                         JArr (map (accepts_entry rt cnf toolDef
                                                      (params_name request))
                                                 paymentConfigs))])),
                     block_data = None, block_mimeType = None\<rparr>],
                 isError = Some True,
                 result_meta = None\<rparr>) \<and>
         (\<forall>cfg.
            js_get (accepts_entry rt cnf toolDef (params_name request) cfg) ''scheme'' =
              Inr (JStr ''exact'') \<and>
            js_get (accepts_entry rt cnf toolDef (params_name request) cfg) ''network'' =
              Inr (JStr (network cfg)) \<and>
            js_get (accepts_entry rt cnf toolDef (params_name request) cfg) ''payTo'' =
              Inr (JStr (recipient cnf)) \<and>
            js_get (accepts_entry rt cnf toolDef (params_name request) cfg) ''asset'' =
              Inr (JStr (token cfg)) \<and>
            js_get (accepts_entry rt cnf toolDef (params_name request) cfg)
              ''maxTimeoutSeconds'' = Inr (JNum (js_number 300)) \<and>
            js_get (accepts_entry rt cnf toolDef (params_name request) cfg) ''mimeType'' =
              Inr (JStr ''application/json'') \<and>
            js_get (accepts_entry rt cnf toolDef (params_name request) cfg) ''resource'' =
              Inr (JStr ((case env_URL rt of
                            None \<Rightarrow> ''http://localhost:3000''
                          | Some u \<Rightarrow> if u = [] then ''http://localhost:3000'' else u) @
                         ''/mcp/tools/'' @ params_name request)))"
proof (intro conjI allI)
  have "\<not> js_truthy (case params_meta request of None \<Rightarrow> JUndefined
                      | Some m \<Rightarrow> obj_get m ''x402.payment'')"
    using assms(3) by (auto simp: obj_get_def split: option.splits)
  then have "paid_call rt cnf toolDef request paymentConfigs =
               ([], payment_required rt cnf toolDef (params_name request) paymentConfigs)"
    by (simp add: paid_call_def)
  then show "handle_call rt cnf tools request =
           ([],
            Inr \<lparr>content =
                   [\<lparr>block_type = text_type,
                     block_text =
                       Some (JSON_stringify rt
                               (JObj [(''x402Version'', JNum (js_number 1)),
                                      (''error'', JStr ''_meta.x402.payment is required''),
                                      (''accepts'',
                                         JArr (map (accepts_entry rt cnf toolDef
                                                      (params_name request))
                                                 paymentConfigs))])),
                     block_data = None, block_mimeType = None\<rparr>],
                 isError = Some True,
                 result_meta = None\<rparr>)"
    using handle_call_paid [OF assms(1,2), of rt cnf]
    by (simp add: payment_required_def error_result_def)
qed (auto simp: accepts_entry_def obj_get_def resource_of_def split: option.splits)

theorem C2_payment_required_witness:
  "find (\<lambda>t. tool_name t = params_name (example_request None)) [example_tool] =
     Some example_tool \<and>
   paymentOptions example_tool = Some [example_xlayer, example_base] \<and>
   params_meta (example_request None) = None \<and>
   handle_call example_paid_runtime example_server [example_tool] (example_request None) =
     ([], Inr (payment_required example_paid_runtime example_server example_tool
                 ''premium_analysis'' [example_xlayer, example_base])) \<and>
   isError (payment_required example_paid_runtime example_server example_tool
              ''premium_analysis'' [example_xlayer, example_base]) = Some True \<and>
   js_get (accepts_entry example_paid_runtime example_server example_tool ''premium_analysis''
             example_base) ''resource'' =
     Inr (JStr ''http://localhost:3000/mcp/tools/premium_analysis'') \<and>
   js_get (accepts_entry example_paid_runtime example_server example_tool ''premium_analysis''
             example_base) ''network'' = Inr (JStr ''base-sepolia'') \<and>
   js_get (accepts_entry example_paid_runtime example_server example_tool ''premium_analysis''
             example_base) ''payTo'' = Inr (JStr ''0xSeller'') \<and>
   js_get (accepts_entry example_paid_runtime example_server example_tool ''premium_analysis''
             example_base) ''asset'' =
     Inr (JStr ''0x036CbD53842c5426634e7929541eC2318f3dCF7e'')"
proof -
  have m: "case params_meta (example_request None) of
             None \<Rightarrow> True | Some m \<Rightarrow> map_of m ''x402.payment'' = None"
    by (simp add: example_request_def)
  have n: "params_name (example_request None) = ''premium_analysis''"
    by (simp add: example_request_def)
  note T = C2_payment_required [OF example_find(2) example_find(3) m,
      where rt = example_paid_runtime and cnf = example_server, unfolded n]
  have r1: "handle_call example_paid_runtime example_server [example_tool]
              (example_request None) =
     ([], Inr (payment_required example_paid_runtime example_server example_tool
                 ''premium_analysis'' [example_xlayer, example_base]))"
    by (subst T [THEN conjunct1]) (simp add: payment_required_def error_result_def)
  have r2: "js_get (accepts_entry example_paid_runtime example_server example_tool
                      ''premium_analysis'' example_base) ''resource'' =
     Inr (JStr ''http://localhost:3000/mcp/tools/premium_analysis'')"
    "js_get (accepts_entry example_paid_runtime example_server example_tool
               ''premium_analysis'' example_base) ''network'' = Inr (JStr ''base-sepolia'')"
    "js_get (accepts_entry example_paid_runtime example_server example_tool
               ''premium_analysis'' example_base) ''payTo'' = Inr (JStr ''0xSeller'')"
    "js_get (accepts_entry example_paid_runtime example_server example_tool
               ''premium_analysis'' example_base) ''asset'' =
     Inr (JStr ''0x036CbD53842c5426634e7929541eC2318f3dCF7e'')"
    using T [THEN conjunct2, rule_format, of example_base]
    by (simp_all add: example_paid_runtime_def example_runtime_def example_base_def
        example_server_def)
  have r3: "isError (payment_required example_paid_runtime example_server example_tool
              ''premium_analysis'' [example_xlayer, example_base]) = Some True"
    by (simp add: payment_required_def)
  have r4: "params_meta (example_request None) = None"
    by (simp add: example_request_def)
  show ?thesis
    using example_find(2) example_find(3) r1 r2 r3 r4 by blast
qed

text \<open>
  Claim C7, as amended. A call of a paid tool that supplies an \<^verbatim>\<open>x402.payment\<close> value
  whose decoding throws, or decodes to an object without \<^verbatim>\<open>network\<close>, makes no
  facilitator call, does not invoke the handler and returns an error-flagged result with
  one text block. For a truthy value the text is the JSON of
  \<^verbatim>\<open>{ error: "Payment processing error", details }\<close>, where \<^verbatim>\<open>details\<close> is the message of
  what the decoding threw, respectively \<^verbatim>\<open>Payment payload must include 'network' field\<close>.
  For a falsy value (the empty string, for one) the guard \<^verbatim>\<open>if (!payment)\<close> takes the
  payment as missing: the text is the payment-required challenge and says nothing of the
  decoding.
\<close>

theorem C7_invalid_proof:
  assumes "find (\<lambda>t. tool_name t = params_name request) tools = Some toolDef"
      and "paymentOptions toolDef = Some paymentConfigs"
      and "params_meta request = Some m"
      and "map_of m ''x402.payment'' = Some payment"
      and "(\<exists>err. base64_json_parse rt payment = Inl err) \<or>
           (\<exists>kvs. base64_json_parse rt payment = Inr (JObj kvs) \<and>
                  map_of kvs ''network'' = None)"
  shows "handle_call rt cnf tools request =
           ([],
            Inr \<lparr>content =
                   [\<lparr>block_type = text_type,
                     block_text =
                       Some (JSON_stringify rt
                               (JObj (if js_truthy payment
                                      then [(''error'', JStr ''Payment processing error''),
                                            (''details'',
                                               JStr (case base64_json_parse rt payment of
                                                       Inl err \<Rightarrow> error_details err
                                                     | Inr decoded \<Rightarrow>
                                                         ''Payment payload must include '' @
                                                         [CHR 0x27] @ ''network'' @
                                                         [CHR 0x27] @ '' field''))]
                                      else [(''x402Version'', JNum (js_number 1)),
                                            (''error'',
                                               JStr ''_meta.x402.payment is required''),
                                            (''accepts'',
                                               JArr (map (accepts_entry rt cnf toolDef
                                                            (params_name request))
                                                       paymentConfigs))]))),
                     block_data = None, block_mimeType = None\<rparr>],
                 isError = Some True,
                 result_meta = None\<rparr>)"
proof -
  have p: "(case params_meta request of None \<Rightarrow> JUndefined
            | Some m \<Rightarrow> obj_get m ''x402.payment'') = payment"
    using assms(3,4) by (simp add: obj_get_def)
  show ?thesis
  proof (cases "js_truthy payment")
    case False
    then have "paid_call rt cnf toolDef request paymentConfigs =
               ([], payment_required rt cnf toolDef (params_name request) paymentConfigs)"
      by (simp add: paid_call_def p)
    with False show ?thesis
      using handle_call_paid [OF assms(1,2), of rt cnf]
      by (simp add: payment_required_def error_result_def)
  next
    case True
    from assms(5) show ?thesis
    proof
      assume "\<exists>err. base64_json_parse rt payment = Inl err"
      then obtain err where e: "base64_json_parse rt payment = Inl err" by blast
      then have "paid_call rt cnf toolDef request paymentConfigs =
                   ([], error_result rt
                          [(''error'', JStr ''Payment processing error''),
                           (''details'', JStr (error_details err))])"
        using True by (simp add: paid_call_def p)
      with True e show ?thesis
        using handle_call_paid [OF assms(1,2), of rt cnf] by (simp add: error_result_def)
    next
      assume "\<exists>kvs. base64_json_parse rt payment = Inr (JObj kvs) \<and>
                  map_of kvs ''network'' = None"
      then obtain kvs where k: "base64_json_parse rt payment = Inr (JObj kvs)"
          "map_of kvs ''network'' = None" by blast
      then have "paid_call rt cnf toolDef request paymentConfigs =
                   ([], error_result rt
                          [(''error'', JStr ''Payment processing error''),
                           (''details'',
                              JStr ''Payment payload must include 'network' field'')])"
        using True by (simp add: paid_call_def p process_payment_def obj_get_def)
      with True k show ?thesis
        using handle_call_paid [OF assms(1,2), of rt cnf] by (simp add: error_result_def)
    qed
  qed
qed

theorem C7_invalid_proof_witness:
  "find (\<lambda>t. tool_name t = params_name (example_request (Some [(''x402.payment'', JStr ''!!!'')])))
     [example_tool] = Some example_tool \<and>
   paymentOptions example_tool = Some [example_xlayer, example_base] \<and>
   js_truthy (JStr ''!!!'') \<and> js_truthy (JStr ''e30='') \<and>
   base64_json_parse example_paid_runtime (JStr ''!!!'') =
     Inl (ErrorObj ''Unexpected end of JSON input'') \<and>
   base64_json_parse example_paid_runtime (JStr ''e30='') = Inr (JObj []) \<and>
   handle_call example_paid_runtime example_server [example_tool]
     (example_request (Some [(''x402.payment'', JStr ''!!!'')])) =
     ([],
      Inr \<lparr>content =
             [\<lparr>block_type = text_type,
               block_text =
                 Some (example_stringify
                         (JObj [(''error'', JStr ''Payment processing error''),
                                (''details'', JStr ''Unexpected end of JSON input'')])),
               block_data = None, block_mimeType = None\<rparr>],
           isError = Some True,
           result_meta = None\<rparr>) \<and>
   handle_call example_paid_runtime example_server [example_tool]
     (example_request (Some [(''x402.payment'', JStr ''e30='')])) =
     ([],
      Inr \<lparr>content =
             [\<lparr>block_type = text_type,
               block_text =
                 Some (example_stringify
                         (JObj [(''error'', JStr ''Payment processing error''),
                                (''details'',
                                   JStr ''Payment payload must include 'network' field'')])),
               block_data = None, block_mimeType = None\<rparr>],
           isError = Some True,
           result_meta = None\<rparr>)"
proof -
  have p1: "base64_json_parse example_paid_runtime (JStr ''!!!'') =
              Inl (ErrorObj ''Unexpected end of JSON input'')"
    by (simp add: example_defs)
  have p2: "base64_json_parse example_paid_runtime (JStr ''e30='') = Inr (JObj [])"
    by (simp add: example_defs)
  have d1: "(\<exists>err. base64_json_parse example_paid_runtime (JStr ''!!!'') = Inl err) \<or>
            (\<exists>kvs. base64_json_parse example_paid_runtime (JStr ''!!!'') = Inr (JObj kvs) \<and>
                   map_of kvs ''network'' = None)"
    using p1 by simp
  have d2: "(\<exists>err. base64_json_parse example_paid_runtime (JStr ''e30='') = Inl err) \<or>
            (\<exists>kvs. base64_json_parse example_paid_runtime (JStr ''e30='') = Inr (JObj kvs) \<and>
                   map_of kvs ''network'' = None)"
    using p2 by simp
  have m: "params_meta (example_request (Some mm)) = Some mm" for mm
    by (simp add: example_request_def)
  have l: "map_of [(''x402.payment'', v)] ''x402.payment'' = Some v" for v :: jsval
    by simp
  have s: "JSON_stringify example_paid_runtime = example_stringify"
    by (simp add: example_paid_runtime_def example_runtime_def)
  have t: "js_truthy (JStr ''!!!'')" "js_truthy (JStr ''e30='')"
    by simp_all
  have r1: "handle_call example_paid_runtime example_server [example_tool]
     (example_request (Some [(''x402.payment'', JStr ''!!!'')])) =
     ([],
      Inr \<lparr>content =
             [\<lparr>block_type = text_type,
               block_text =
                 Some (example_stringify
                         (JObj [(''error'', JStr ''Payment processing error''),
                                (''details'', JStr ''Unexpected end of JSON input'')])),
               block_data = None, block_mimeType = None\<rparr>],
           isError = Some True,
           result_meta = None\<rparr>)"
    by (subst C7_invalid_proof [OF example_find(2) example_find(3) m l d1,
          where cnf = example_server])
       (simp add: p1 s)
  have r2: "handle_call example_paid_runtime example_server [example_tool]
     (example_request (Some [(''x402.payment'', JStr ''e30='')])) =
     ([],
      Inr \<lparr>content =
             [\<lparr>block_type = text_type,
               block_text =
                 Some (example_stringify
                         (JObj [(''error'', JStr ''Payment processing error''),
                                (''details'',
                                   JStr ''Payment payload must include 'network' field'')])),
               block_data = None, block_mimeType = None\<rparr>],
           isError = Some True,
           result_meta = None\<rparr>)"
    by (subst C7_invalid_proof [OF example_find(2) example_find(3) m l d2,
          where cnf = example_server])
       (simp add: p2 s)
  show ?thesis
    using example_find(2) example_find(3) t p1 p2 r1 r2 by blast
qed

text \<open>
  The claim as it stands fails for a supplied value that is falsy. The empty string is
  one: its decoding throws \<^verbatim>\<open>Unexpected end of JSON input\<close>, yet the call returns the
  payment-required challenge with the accepted payments, not a result that carries this
  reason.
\<close>

theorem C7_falsy_payment_counterexample:
  "params_meta (example_request (Some [(''x402.payment'', JStr [])])) =
     Some [(''x402.payment'', JStr [])] \<and>
   base64_json_parse example_paid_runtime (JStr []) =
     Inl (ErrorObj ''Unexpected end of JSON input'') \<and>
   handle_call example_paid_runtime example_server [example_tool]
     (example_request (Some [(''x402.payment'', JStr [])])) =
     ([],
      Inr \<lparr>content =
             [\<lparr>block_type = text_type,
               block_text =
                 Some (example_stringify
                         (JObj [(''x402Version'', JNum (js_number 1)),
                                (''error'', JStr ''_meta.x402.payment is required''),
                                (''accepts'',
                                   JArr [accepts_entry example_paid_runtime example_server
                                           example_tool ''premium_analysis'' example_xlayer,
                                         accepts_entry example_paid_runtime example_server
                                           example_tool ''premium_analysis'' example_base])])),
               block_data = None, block_mimeType = None\<rparr>],
           isError = Some True,
           result_meta = None\<rparr>) \<and>
   handle_call example_paid_runtime example_server [example_tool]
     (example_request (Some [(''x402.payment'', JStr [])])) \<noteq>
     ([],
      Inr \<lparr>content =
             [\<lparr>block_type = text_type,
               block_text =
                 Some (example_stringify
                         (JObj [(''error'', JStr ''Payment processing error''),
                                (''details'', JStr ''Unexpected end of JSON input'')])),
               block_data = None, block_mimeType = None\<rparr>],
           isError = Some True,
           result_meta = None\<rparr>)"
proof -
  have r: "handle_call example_paid_runtime example_server [example_tool]
     (example_request (Some [(''x402.payment'', JStr [])])) =
     ([],
      Inr \<lparr>content =
             [\<lparr>block_type = text_type,
               block_text =
                 Some (example_stringify
                         (JObj [(''x402Version'', JNum (js_number 1)),
                                (''error'', JStr ''_meta.x402.payment is required''),
                                (''accepts'',
                                   JArr [accepts_entry example_paid_runtime example_server
                                           example_tool ''premium_analysis'' example_xlayer,
                                         accepts_entry example_paid_runtime example_server
                                           example_tool ''premium_analysis'' example_base])])),
               block_data = None, block_mimeType = None\<rparr>],
           isError = Some True,
           result_meta = None\<rparr>)"
    by (simp add: handle_call_def paid_call_def payment_required_def error_result_def
        obj_get_def example_tool_def example_request_def example_paid_runtime_def
        example_runtime_def)
  have d: "example_stringify
             (JObj [(''x402Version'', JNum (js_number 1)),
                    (''error'', JStr ''_meta.x402.payment is required''),
                    (''accepts'',
                       JArr [accepts_entry example_paid_runtime example_server
                               example_tool ''premium_analysis'' example_xlayer,
                             accepts_entry example_paid_runtime example_server
                               example_tool ''premium_analysis'' example_base])]) \<noteq>
           example_stringify
             (JObj [(''error'', JStr ''Payment processing error''),
                    (''details'', JStr ''Unexpected end of JSON input'')])"
    by simp
  have p: "base64_json_parse example_paid_runtime (JStr []) =
             Inl (ErrorObj ''Unexpected end of JSON input'')"
    by (simp add: example_defs)
  have m: "params_meta (example_request (Some [(''x402.payment'', JStr [])])) =
             Some [(''x402.payment'', JStr [])]"
    by (simp add: example_request_def)
  show ?thesis
    using r d p m by simp
qed





end
